theory Spec2Isabelle
  imports Complex_Main "HOL-Library.AList"
begin

section \<open>Values exchanged with the upstream services\<close>

text \<open>
  The bot handles whatever \<^verbatim>\<open>response.json()\<close> returns: Python values built from
  \<^verbatim>\<open>None\<close>, booleans, integers, floats, strings, lists and dictionaries. A dictionary is
  an association list in insertion order, read with \<open>map_of\<close>.

  An integer is unbounded. A float is a binary64 number. \<open>JFloat r\<close> is the float that
  Python reads from a decimal literal of value \<open>r\<close>: the float nearest to \<open>r\<close>, an
  infinity when \<open>r\<close> is beyond the range, a zero when \<open>r\<close> is too small. \<open>JSpecial\<close> holds
  the floats that come from no such value: the tokens \<^verbatim>\<open>NaN\<close>, \<^verbatim>\<open>Infinity\<close> and
  \<^verbatim>\<open>-Infinity\<close>, which Python's parser accepts, and the literal \<^verbatim>\<open>-0.0\<close>.

  A Python string is written in UTF-8: a \<open>string\<close> is its sequence of bytes, and one
  character is one to four of them.
\<close>

datatype special = NaN | PosInf | NegInf | NegZero

datatype json =
    JNull
  | JBool bool
  | JInt int
  | JFloat rat
  | JSpecial special
  | JStr string
  | JList "json list"
  | JDict "(string \<times> json) list"

type_synonym dict = "(string \<times> json) list"

text \<open>The exceptions the modelled code can meet.\<close>

datatype exn =
    AttributeError
  | TypeError
  | ValueError
  | KeyError
  | OverflowError
  | HTTPError
  | JSONDecodeError
  | RequestException
  | WebDriverException
  | FileNotFoundError
  | IndexError
  | TelegramError

text \<open>\<^verbatim>\<open>d.get(k, default)\<close> on a dictionary.\<close>

definition dict_get :: "dict \<Rightarrow> string \<Rightarrow> json \<Rightarrow> json" where
  "dict_get d k dflt = (case map_of d k of None \<Rightarrow> dflt | Some v \<Rightarrow> v)"

text \<open>
  \<^verbatim>\<open>x.get(k, default)\<close> on an arbitrary value: only a dictionary has the method, every
  other value raises \<^verbatim>\<open>AttributeError\<close>.
\<close>

fun py_get :: "json \<Rightarrow> string \<Rightarrow> json \<Rightarrow> exn + json" where
  "py_get (JDict d) k dflt = Inr (dict_get d k dflt)"
| "py_get _ k dflt = Inl AttributeError"

text \<open>
  The values that are integers in arithmetic: \<^verbatim>\<open>bool\<close> is a subclass of \<^verbatim>\<open>int\<close> in
  Python, so \<^verbatim>\<open>True\<close> counts as 1. The values that are floats. A number is one or the
  other.
\<close>

fun int_val :: "json \<Rightarrow> int option" where
  "int_val (JInt i) = Some i"
| "int_val (JBool b) = Some (if b then 1 else 0)"
| "int_val _ = None"

fun is_float :: "json \<Rightarrow> bool" where
  "is_float (JFloat r) = True"
| "is_float (JSpecial s) = True"
| "is_float _ = False"

definition is_number :: "json \<Rightarrow> bool" where
  "is_number v \<longleftrightarrow> int_val v \<noteq> None \<or> is_float v"

text \<open>
  Converting an integer to a float rounds to the nearest float, ties to even, and raises
  \<^verbatim>\<open>OverflowError\<close> when the result would be \<open>2 ^ 1024\<close> or more in magnitude. The
  largest float is \<open>2 ^ 1024 - 2 ^ 971\<close>, so the integers that convert are those below
  the midpoint \<open>2 ^ 1024 - 2 ^ 970\<close> in magnitude.
\<close>

definition int_fits_float :: "int \<Rightarrow> bool" where
  "int_fits_float i \<longleftrightarrow> \<bar>i\<bar> < 2 ^ 1024 - 2 ^ 970"

text \<open>
  Truthiness, as \<^verbatim>\<open>if x:\<close> and \<^verbatim>\<open>not x\<close> test it. A float is false when it is a
  zero: the literal \<^verbatim>\<open>-0.0\<close>, or a literal whose value rounds to zero, which is the
  case up to half the smallest positive float, \<open>2 ^ 1074\<close> to the minus one.
\<close>

fun truthy :: "json \<Rightarrow> bool" where
  "truthy JNull = False"
| "truthy (JBool b) = b"
| "truthy (JInt i) = (i \<noteq> 0)"
| "truthy (JFloat r) = (\<bar>r\<bar> > 1 / 2 ^ 1075)"
| "truthy (JSpecial s) = (s \<noteq> NegZero)"
| "truthy (JStr s) = (s \<noteq> [])"
| "truthy (JList xs) = (xs \<noteq> [])"
| "truthy (JDict d) = (d \<noteq> [])"

section \<open>The decentralization classifier\<close>

record verdict =
  score :: int
  description :: string

text \<open>
  The result of a sum is an integer or a float; a float is a rational or one of the
  special values.
\<close>

datatype pyfloat = Finite rat | Special special

datatype pynum = PyInt int | PyFloat pyfloat

text \<open>
  \<^verbatim>\<open>sum(node.get('percentage', 0) for node in nodes[:10])\<close>: the generator is consumed
  from the left, starting from the integer 0. A node that is no dictionary raises
  \<^verbatim>\<open>AttributeError\<close> at \<^verbatim>\<open>.get\<close>, a percentage that is no number raises
  \<^verbatim>\<open>TypeError\<close> at the addition.

  The running sum is represented by the numbers added so far, \<open>seen\<close>. As long as all of
  them are integers the running sum is their exact total. From the first float on it is
  a float. An addition that has to convert an integer to a float raises
  \<^verbatim>\<open>OverflowError\<close> when the integer does not fit: the total so far when the first
  float arrives, or a later integer. Adding two floats never raises.

  Which float a sum of floats is depends on the rounding of every addition and on the
  summation algorithm of the interpreter (CPython compensates the rounding errors from
  version 3.12 on). The model takes it as a parameter, \<open>fsum\<close>, a function of the numbers
  added, and assumes nothing about it.
\<close>

definition int_total :: "json list \<Rightarrow> int" where
  "int_total seen = sum_list (map (\<lambda>v. case int_val v of None \<Rightarrow> 0 | Some i \<Rightarrow> i) seen)"

definition all_ints :: "json list \<Rightarrow> bool" where
  "all_ints seen \<longleftrightarrow> list_all (\<lambda>v. \<not> is_float v) seen"

definition sum_add :: "json list \<Rightarrow> json \<Rightarrow> exn + json list" where
  "sum_add seen v =
     (if \<not> is_number v then Inl TypeError
      else if all_ints seen
      then (if is_float v \<and> \<not> int_fits_float (int_total seen) then Inl OverflowError
            else Inr (seen @ [v]))
      else
        (case int_val v of
           None \<Rightarrow> Inr (seen @ [v])
         | Some i \<Rightarrow> if int_fits_float i then Inr (seen @ [v]) else Inl OverflowError))"

fun sum_percentage :: "json list \<Rightarrow> json list \<Rightarrow> exn + json list" where
  "sum_percentage seen [] = Inr seen"
| "sum_percentage seen (node # rest) =
     (case py_get node ''percentage'' (JInt 0) of
        Inl e \<Rightarrow> Inl e
      | Inr v \<Rightarrow>
          (case sum_add seen v of
             Inl e \<Rightarrow> Inl e
           | Inr seen' \<Rightarrow> sum_percentage seen' rest))"

definition sum_value :: "(json list \<Rightarrow> pyfloat) \<Rightarrow> json list \<Rightarrow> pynum" where
  "sum_value fsum seen = (if all_ints seen then PyInt (int_total seen) else PyFloat (fsum seen))"

definition top10_percentage :: "(json list \<Rightarrow> pyfloat) \<Rightarrow> json list \<Rightarrow> exn + pynum" where
  "top10_percentage fsum nodes =
     (case sum_percentage [] (take 10 nodes) of
        Inl e \<Rightarrow> Inl e
      | Inr seen \<Rightarrow> Inr (sum_value fsum seen))"

text \<open>
  \<^verbatim>\<open>x > k\<close> for an integer constant \<open>k\<close>. Python compares an integer and a float by
  their exact values; every comparison with NaN is false.
\<close>

fun py_gt :: "pynum \<Rightarrow> int \<Rightarrow> bool" where
  "py_gt (PyInt i) k = (i > k)"
| "py_gt (PyFloat (Finite r)) k = (r > of_int k)"
| "py_gt (PyFloat (Special PosInf)) k = True"
| "py_gt (PyFloat (Special NegInf)) k = False"
| "py_gt (PyFloat (Special NegZero)) k = (0 > k)"
| "py_gt (PyFloat (Special NaN)) k = False"

definition analyze_decentralization ::
  "(json list \<Rightarrow> pyfloat) \<Rightarrow> json list \<Rightarrow> exn + verdict" where
  "analyze_decentralization fsum nodes =
     (if nodes = [] \<or> length nodes < 3
      then Inr \<lparr>score = 0, description = ''Insufficient data for analysis''\<rparr>
      else
        (case top10_percentage fsum nodes of
           Inl e \<Rightarrow> Inl e
         | Inr t \<Rightarrow>
             if py_gt t 90 then Inr \<lparr>score = 1, description = ''Very low decentralization''\<rparr>
             else if py_gt t 70 then Inr \<lparr>score = 2, description = ''Low decentralization''\<rparr>
             else if py_gt t 50 then Inr \<lparr>score = 3, description = ''Medium decentralization''\<rparr>
             else if py_gt t 30 then Inr \<lparr>score = 4, description = ''High decentralization''\<rparr>
             else Inr \<lparr>score = 5, description = ''Very high decentralization''\<rparr>))"

section \<open>Strings\<close>

text \<open>
  Python's string methods work on characters. \<open>py_chars\<close> cuts a UTF-8 string into its
  characters: a byte that starts a character, followed by its continuation bytes (those
  from \<open>0x80\<close> to \<open>0xBF\<close>). \<open>py_len\<close> is \<^verbatim>\<open>len\<close>.
\<close>

definition is_continuation :: "char \<Rightarrow> bool" where
  "is_continuation c \<longleftrightarrow> (of_char c :: nat) div 64 = 2"

function py_chars :: "string \<Rightarrow> string list" where
  "py_chars [] = []"
| "py_chars (c # cs) =
     (c # takeWhile is_continuation cs) # py_chars (dropWhile is_continuation cs)"
  by pat_completeness auto
termination
  by (relation "measure length") (auto simp: length_dropWhile_le less_Suc_eq_le)

definition py_len :: "string \<Rightarrow> nat" where
  "py_len s = length (py_chars s)"

text \<open>
  The characters for which \<^verbatim>\<open>str.isspace\<close> holds, which are those \<^verbatim>\<open>split\<close> and
  \<^verbatim>\<open>strip\<close> cut at: U+0009 to U+000D, U+001C to U+0020, U+0085, U+00A0, U+1680,
  U+2000 to U+200A, U+2028, U+2029, U+202F, U+205F and U+3000.
\<close>

definition whitespace :: "string list" where
  "whitespace =
     [[CHR 0x09], [CHR 0x0A], [CHR 0x0B], [CHR 0x0C], [CHR 0x0D],
      [CHR 0x1C], [CHR 0x1D], [CHR 0x1E], [CHR 0x1F], [CHR 0x20],
      [CHR 0xC2, CHR 0x85], [CHR 0xC2, CHR 0xA0],
      [CHR 0xE1, CHR 0x9A, CHR 0x80],
      [CHR 0xE2, CHR 0x80, CHR 0x80], [CHR 0xE2, CHR 0x80, CHR 0x81],
      [CHR 0xE2, CHR 0x80, CHR 0x82], [CHR 0xE2, CHR 0x80, CHR 0x83],
      [CHR 0xE2, CHR 0x80, CHR 0x84], [CHR 0xE2, CHR 0x80, CHR 0x85],
      [CHR 0xE2, CHR 0x80, CHR 0x86], [CHR 0xE2, CHR 0x80, CHR 0x87],
      [CHR 0xE2, CHR 0x80, CHR 0x88], [CHR 0xE2, CHR 0x80, CHR 0x89],
      [CHR 0xE2, CHR 0x80, CHR 0x8A],
      [CHR 0xE2, CHR 0x80, CHR 0xA8], [CHR 0xE2, CHR 0x80, CHR 0xA9],
      [CHR 0xE2, CHR 0x80, CHR 0xAF],
      [CHR 0xE2, CHR 0x81, CHR 0x9F],
      [CHR 0xE3, CHR 0x80, CHR 0x80]]"

definition is_space :: "string \<Rightarrow> bool" where
  "is_space ch \<longleftrightarrow> ch \<in> set whitespace"

text \<open>
  \<^verbatim>\<open>str.split()\<close> without argument cuts at runs of whitespace and returns no empty
  token; \<^verbatim>\<open>str.strip()\<close> drops the whitespace at both ends.
\<close>

fun py_split_from :: "string \<Rightarrow> string list \<Rightarrow> string list" where
  "py_split_from cur [] = (if cur = [] then [] else [cur])"
| "py_split_from cur (ch # chs) =
     (if is_space ch
      then (if cur = [] then py_split_from [] chs else cur # py_split_from [] chs)
      else py_split_from (cur @ ch) chs)"

definition py_split :: "string \<Rightarrow> string list" where
  "py_split s = py_split_from [] (py_chars s)"

definition py_strip :: "string \<Rightarrow> string" where
  "py_strip s = concat (rev (dropWhile is_space (rev (dropWhile is_space (py_chars s)))))"

text \<open>
  \<^verbatim>\<open>str.lower()\<close> maps the ASCII capitals to small letters. Among all other characters
  only two have a lower case that contains an ASCII letter: U+212A (the Kelvin sign)
  gives \<^verbatim>\<open>k\<close>, and U+0130 gives \<^verbatim>\<open>i\<close> followed by U+0307. Every other character with
  a lower case of its own is left as it is here; in Python it becomes another character
  outside ASCII. The handler only asks whether the result is one of the chain names, which
  are ASCII, so the two agree on every answer, and for a chain name they agree on the
  result. \<^verbatim>\<open>str.upper()\<close> is applied to an accepted chain name only: the ASCII letters
  are mapped.
\<close>

definition ascii_uppercase :: string where
  "ascii_uppercase = ''ABCDEFGHIJKLMNOPQRSTUVWXYZ''"

definition ascii_lowercase :: string where
  "ascii_lowercase = ''abcdefghijklmnopqrstuvwxyz''"

definition lower_char :: "string \<Rightarrow> string" where
  "lower_char ch =
     (if ch = [CHR 0xE2, CHR 0x84, CHR 0xAA] then ''k''
      else if ch = [CHR 0xC4, CHR 0xB0] then [CHR ''i'', CHR 0xCC, CHR 0x87]
      else map (\<lambda>c. case map_of (zip ascii_uppercase ascii_lowercase) c of
                       None \<Rightarrow> c | Some d \<Rightarrow> d) ch)"

definition py_lower :: "string \<Rightarrow> string" where
  "py_lower s = concat (map lower_char (py_chars s))"

definition py_upper :: "string \<Rightarrow> string" where
  "py_upper s =
     map (\<lambda>c. case map_of (zip ascii_lowercase ascii_uppercase) c of None \<Rightarrow> c | Some d \<Rightarrow> d) s"

text \<open>\<^verbatim>\<open>sep.join(xs)\<close>, on strings and on formatted texts alike.\<close>

fun py_join :: "'a list \<Rightarrow> 'a list list \<Rightarrow> 'a list" where
  "py_join sep [] = []"
| "py_join sep [x] = x"
| "py_join sep (x # y # ys) = x @ sep @ py_join sep (y # ys)"

definition newline :: string where
  "newline = [CHR 0x0A]"

text \<open>The pictographs and the bullet of the source's literals, in UTF-8.\<close>

definition cross_mark :: string where
  "cross_mark = [CHR 0xE2, CHR 0x9D, CHR 0x8C]"

definition arrows_sign :: string where
  "arrows_sign = [CHR 0xF0, CHR 0x9F, CHR 0x94, CHR 0x84]"

definition bar_chart :: string where
  "bar_chart = [CHR 0xF0, CHR 0x9F, CHR 0x93, CHR 0x8A]"

definition yen_chart :: string where
  "yen_chart = [CHR 0xF0, CHR 0x9F, CHR 0x92, CHR 0xB9]"

definition trophy :: string where
  "trophy = [CHR 0xF0, CHR 0x9F, CHR 0x8F, CHR 0x86]"

definition magnifier :: string where
  "magnifier = [CHR 0xF0, CHR 0x9F, CHR 0x94, CHR 0x8D]"

definition bullet :: string where
  "bullet = [CHR 0xE2, CHR 0x80, CHR 0xA2]"

section \<open>Formatted text\<close>

text \<open>
  An f-string is kept as the list of its parts instead of being rendered to characters:
  literal text, a value printed with the default format, a number printed in fixed-point
  notation (the digits after the point, whether \<^verbatim>\<open>,\<close> asks for a thousands
  separator, and the number), and the text of a caught exception.
\<close>

datatype piece =
    Lit string
  | Val json
  | Fixed nat bool json
  | ExnText exn

type_synonym ftext = "piece list"

text \<open>
  \<^verbatim>\<open>f"{v:,.6f}"\<close> and \<^verbatim>\<open>f"{v:.2f}"\<close>: a float is formatted, the special values
  included; an integer is converted to a float first, which raises \<^verbatim>\<open>OverflowError\<close>
  when it does not fit; \<^verbatim>\<open>None\<close>, a list and a dictionary raise \<^verbatim>\<open>TypeError\<close>, a
  string raises \<^verbatim>\<open>ValueError\<close>.
\<close>

definition fmt_fixed :: "nat \<Rightarrow> bool \<Rightarrow> json \<Rightarrow> exn + piece" where
  "fmt_fixed digits comma v =
     (case v of
        JInt i \<Rightarrow> if int_fits_float i then Inr (Fixed digits comma v) else Inl OverflowError
      | JBool b \<Rightarrow> Inr (Fixed digits comma v)
      | JFloat r \<Rightarrow> Inr (Fixed digits comma v)
      | JSpecial s \<Rightarrow> Inr (Fixed digits comma v)
      | JStr s \<Rightarrow> Inl ValueError
      | _ \<Rightarrow> Inl TypeError)"

text \<open>Sequencing of steps that may raise: the first exception ends the sequence.\<close>

fun try_bind :: "exn + 'a \<Rightarrow> ('a \<Rightarrow> exn + 'b) \<Rightarrow> exn + 'b" where
  "try_bind (Inl e) f = Inl e"
| "try_bind (Inr x) f = f x"

text \<open>\<^verbatim>\<open>x[k]\<close> with a string key.\<close>

fun py_item :: "json \<Rightarrow> string \<Rightarrow> exn + json" where
  "py_item (JDict d) k = (case map_of d k of None \<Rightarrow> Inl KeyError | Some v \<Rightarrow> Inr v)"
| "py_item _ k = Inl TypeError"

section \<open>The environment of one request\<close>

text \<open>
  What the outside world does during one request is an input of the model: the outcome of
  each HTTP request (an exception of the client, or a response with its status code and
  its body, \<open>None\<close> when the body is no JSON), the outcome of the browser, and whether
  Telegram accepts the photo. Sending a text message is taken to succeed. The float
  summation of the interpreter that runs the bot is part of it as well.
\<close>

datatype http_outcome =
    RequestFailed
  | Response int "json option"

datatype shot_outcome =
    DriverFailed
  | PageLoadFailed
  | SaveFailed
  | SaveSkipped
  | Saved

record env =
  token_http :: http_outcome
  market_http :: http_outcome
  shot :: shot_outcome
  photo_ok :: bool
  float_sum :: "json list \<Rightarrow> pyfloat"

text \<open>
  The effects of a request, in the order they happen. The three fetchers run concurrently
  in the source; here their effects are listed in the order \<^verbatim>\<open>asyncio.gather\<close> starts
  them. A message counts as a reply once it has been sent.
\<close>

datatype level = INFO | WARNING | ERROR

datatype event =
    HttpGet string "(string \<times> string) list"
  | BrowserGet string
  | ReplyText ftext "string option" bool
  | ReplyPhoto string ftext "string option"
  | Log level ftext

fun is_reply :: "event \<Rightarrow> bool" where
  "is_reply (ReplyText t m p) = True"
| "is_reply (ReplyPhoto f t m) = True"
| "is_reply _ = False"

fun is_network_call :: "event \<Rightarrow> bool" where
  "is_network_call (HttpGet u ps) = True"
| "is_network_call (BrowserGet u) = True"
| "is_network_call _ = False"

definition replies :: "event list \<Rightarrow> event list" where
  "replies evs = filter is_reply evs"

definition network_calls :: "event list \<Rightarrow> event list" where
  "network_calls evs = filter is_network_call evs"

section \<open>Constants\<close>

definition BUBBLEMAPS_API_URL :: string where
  "BUBBLEMAPS_API_URL = ''https://api-legacy.bubblemaps.io/map-data''"

definition COINGECKO_API_URL :: string where
  "COINGECKO_API_URL = ''https://api.coingecko.com/api/v3''"

definition SUPPORTED_CHAINS :: "string list" where
  "SUPPORTED_CHAINS =
     [''eth'', ''bsc'', ''ftm'', ''avax'', ''cro'', ''arbi'', ''poly'', ''base'', ''sol'', ''sonic'']"

section \<open>The holder-data fetcher\<close>

text \<open>
  \<open>get_token_data_try\<close> is the body of the \<^verbatim>\<open>try\<close> after the request has been sent:
  it returns the log entries and either the exception raised or the value returned.
  \<^verbatim>\<open>raise_for_status\<close> raises for the status codes 400 to 599.
  \<open>get_token_data\<close> adds the handler \<^verbatim>\<open>except Exception\<close>, which logs and returns
  \<^verbatim>\<open>None\<close>.
\<close>

definition get_token_data_try ::
  "string \<Rightarrow> string \<Rightarrow> http_outcome \<Rightarrow> event list \<times> (exn + dict option)" where
  "get_token_data_try contract_address chain http =
     (case http of
        RequestFailed \<Rightarrow> ([], Inl RequestException)
      | Response status_code body \<Rightarrow>
          if status_code = 401
          then ([Log WARNING [Lit ''Map not computed for '', Lit contract_address,
                              Lit '' on '', Lit chain]], Inr None)
          else if status_code = 404
          then ([Log WARNING [Lit ''Token not found: '', Lit contract_address,
                              Lit '' on '', Lit chain]], Inr None)
          else if 400 \<le> status_code \<and> status_code < 600
          then ([], Inl HTTPError)
          else
            (case body of
               None \<Rightarrow> ([], Inl JSONDecodeError)
             | Some (JDict data) \<Rightarrow>
                 ([], Inr (Some
                    (AList.update ''full_name'' (dict_get data ''full_name'' (JStr ''N/A''))
                      (AList.update ''symbol'' (dict_get data ''symbol'' (JStr ''N/A''))
                        (AList.update ''token_address'' (JStr contract_address) data)))))
             | Some _ \<Rightarrow> ([], Inl AttributeError)))"

definition get_token_data ::
  "string \<Rightarrow> string \<Rightarrow> http_outcome \<Rightarrow> event list \<times> dict option" where
  "get_token_data contract_address chain http =
     (case get_token_data_try contract_address chain http of
        (evs, Inl e) \<Rightarrow>
          (HttpGet BUBBLEMAPS_API_URL [(''token'', contract_address), (''chain'', chain)]
             # evs @ [Log ERROR [Lit ''API request error: '', ExnText e]],
           None)
      | (evs, Inr r) \<Rightarrow>
          (HttpGet BUBBLEMAPS_API_URL [(''token'', contract_address), (''chain'', chain)] # evs,
           r))"

section \<open>The market-data fetcher\<close>

definition chain_map :: "(string \<times> string) list" where
  "chain_map =
     [(''eth'', ''ethereum''),
      (''bsc'', ''binance-smart-chain''),
      (''ftm'', ''fantom''),
      (''avax'', ''avalanche''),
      (''poly'', ''polygon-pos''),
      (''arbi'', ''arbitrum-one''),
      (''base'', ''base''),
      (''cro'', ''cronos'')]"

text \<open>
  \<^verbatim>\<open>data.get('market_data', {}).get(key, {}).get('usd')\<close>: each \<^verbatim>\<open>.get\<close> needs a
  dictionary; a missing entry gives \<^verbatim>\<open>None\<close> at the end.
\<close>

definition usd_of :: "json \<Rightarrow> string \<Rightarrow> exn + json" where
  "usd_of data key =
     try_bind (py_get data ''market_data'' (JDict [])) (\<lambda>md.
     try_bind (py_get md key (JDict [])) (\<lambda>sub.
     py_get sub ''usd'' JNull))"

definition market_record :: "json \<Rightarrow> exn + dict" where
  "market_record data =
     try_bind (usd_of data ''current_price'') (\<lambda>price.
     try_bind (usd_of data ''market_cap'') (\<lambda>market_cap.
     try_bind (usd_of data ''total_volume'') (\<lambda>volume.
     try_bind (try_bind (py_get data ''market_data'' (JDict []))
                 (\<lambda>md. py_get md ''price_change_percentage_24h'' JNull)) (\<lambda>change.
     Inr [(''price'', price), (''market_cap'', market_cap), (''volume'', volume),
          (''price_change_24h'', change)]))))"

definition get_market_data_try :: "http_outcome \<Rightarrow> exn + dict option" where
  "get_market_data_try http =
     (case http of
        RequestFailed \<Rightarrow> Inl RequestException
      | Response status_code body \<Rightarrow>
          if status_code \<noteq> 200 then Inr None
          else
            (case body of
               None \<Rightarrow> Inl JSONDecodeError
             | Some data \<Rightarrow> try_bind (market_record data) (\<lambda>r. Inr (Some r))))"

definition get_market_data ::
  "string \<Rightarrow> string \<Rightarrow> http_outcome \<Rightarrow> event list \<times> dict option" where
  "get_market_data contract_address chain http =
     (if chain = ''sol'' then ([], None)
      else
        (case map_of chain_map chain of
           None \<Rightarrow> ([], None)
         | Some slug \<Rightarrow>
             (case get_market_data_try http of
                Inl e \<Rightarrow>
                  ([HttpGet (COINGECKO_API_URL @ ''/coins/'' @ slug @ ''/contract/''
                              @ contract_address) [],
                    Log ERROR [Lit ''Market data error: '', ExnText e]],
                   None)
              | Inr r \<Rightarrow>
                  ([HttpGet (COINGECKO_API_URL @ ''/coins/'' @ slug @ ''/contract/''
                              @ contract_address) []],
                   r))))"

section \<open>The visualization fetcher\<close>

text \<open>
  The screenshot goes to a file named after the address. The files on disk are a set of
  paths. The browser may fail before the page is requested (\<open>DriverFailed\<close>), while
  loading it (\<open>PageLoadFailed\<close>) or while saving (\<open>SaveFailed\<close>); each is an exception,
  caught and logged, and the fetcher returns \<^verbatim>\<open>None\<close>. \<open>SaveSkipped\<close> is a
  \<^verbatim>\<open>save_screenshot\<close> that returns without having written the file: the path is
  returned all the same.
\<close>

definition generate_screenshot ::
  "string \<Rightarrow> string \<Rightarrow> shot_outcome \<Rightarrow> string set
     \<Rightarrow> event list \<times> string option \<times> string set" where
  "generate_screenshot contract_address chain outcome files =
     (let screenshot_path = ''temp_'' @ contract_address @ ''.png'';
          url = ''https://app.bubblemaps.io/'' @ chain @ ''/token/'' @ contract_address;
          failure = Log ERROR [Lit ''Screenshot error: '', ExnText WebDriverException]
      in case outcome of
           DriverFailed \<Rightarrow> ([failure], None, files)
         | PageLoadFailed \<Rightarrow> ([BrowserGet url, failure], None, files)
         | SaveFailed \<Rightarrow> ([BrowserGet url, failure], None, files)
         | SaveSkipped \<Rightarrow> ([BrowserGet url], Some screenshot_path, files)
         | Saved \<Rightarrow> ([BrowserGet url], Some screenshot_path, insert screenshot_path files))"

section \<open>The response composer\<close>

definition usage_text :: ftext where
  "usage_text =
     [Lit (cross_mark @ '' Invalid format. Use:'' @ newline @ ''`<address> <chain>`''
           @ newline @ newline),
      Lit ''Supported chains: '', Lit (py_join '', '' SUPPORTED_CHAINS)]"

definition processing_text :: ftext where
  "processing_text = [Lit (arrows_sign @ '' Processing request...'')]"

definition no_map_text :: ftext where
  "no_map_text = [Lit (cross_mark @ '' Map not computed or error occurred.'')]"

definition error_text :: ftext where
  "error_text = [Lit (cross_mark @ '' Error processing request. Please try again later.'')]"

text \<open>The five lines the response starts with.\<close>

definition header_lines :: "string \<Rightarrow> dict \<Rightarrow> ftext list" where
  "header_lines chain token_data =
     [[Lit (bar_chart @ '' *''), Val (dict_get token_data ''full_name'' (JStr ''N/A'')),
       Lit '' ('', Val (dict_get token_data ''symbol'' (JStr ''N/A'')), Lit '')*''],
      [],
      [Lit (bullet @ '' Network: ''), Lit (py_upper chain)],
      [Lit (bullet @ '' Address: `''), Val (dict_get token_data ''token_address'' JNull),
       Lit ''`''],
      [Lit (bullet @ '' Updated: ''), Val (dict_get token_data ''dt_update'' (JStr ''N/A''))]]"

definition market_title :: ftext where
  "market_title = [Lit (yen_chart @ '' *Market Data:*'')]"

text \<open>
  \<^verbatim>\<open>if market_data:\<close> followed by the four formatted lines. The list is built before
  \<^verbatim>\<open>extend\<close> is called, so an exception in a format leaves no line behind.
\<close>

definition market_lines :: "dict option \<Rightarrow> exn + ftext list" where
  "market_lines market_data =
     (case market_data of
        None \<Rightarrow> Inr []
      | Some md \<Rightarrow>
          if md = [] then Inr []
          else
            try_bind (fmt_fixed 6 True (dict_get md ''price'' (JStr ''N/A''))) (\<lambda>price.
            try_bind (fmt_fixed 2 True (dict_get md ''market_cap'' (JStr ''N/A''))) (\<lambda>cap.
            try_bind (fmt_fixed 2 True (dict_get md ''volume'' (JStr ''N/A''))) (\<lambda>volume.
            try_bind (fmt_fixed 2 False (dict_get md ''price_change_24h'' (JStr ''N/A'')))
              (\<lambda>change.
            Inr [[],
                 market_title,
                 [Lit (bullet @ '' Price: $''), price],
                 [Lit (bullet @ '' Market Cap: $''), cap],
                 [Lit (bullet @ '' Volume (24h): $''), volume],
                 [Lit (bullet @ '' Price Change (24h): ''), change, Lit ''%'']])))))"

definition holder_title :: ftext where
  "holder_title = [Lit (trophy @ '' *Top Holder:*'')]"

definition analysis_title :: ftext where
  "analysis_title = [Lit (magnifier @ '' *Decentralization Analysis:*'')]"

text \<open>
  The holder block of a non-empty list of nodes: the classifier runs first, then the
  lines are formatted from the first node.
\<close>

definition holder_block ::
  "(json list \<Rightarrow> pyfloat) \<Rightarrow> json \<Rightarrow> json list \<Rightarrow> exn + ftext list" where
  "holder_block fsum holder nodes =
     try_bind (analyze_decentralization fsum nodes) (\<lambda>decentralization.
     try_bind (py_item holder ''address'') (\<lambda>address.
     try_bind (py_get holder ''percentage'' (JInt 0)) (\<lambda>percentage.
     try_bind (fmt_fixed 2 False percentage) (\<lambda>share.
     Inr [[],
          holder_title,
          [Lit (bullet @ '' Address: `''), Val address, Lit ''`''],
          [Lit (bullet @ '' Percentage: ''), share, Lit ''%''],
          [],
          analysis_title,
          [Lit (bullet @ '' Score: ''), Val (JInt (score decentralization)), Lit ''/5''],
          [Lit (bullet @ '' Description: ''), Lit (description decentralization)]]))))"

text \<open>
  \<^verbatim>\<open>if 'nodes' in token_data and token_data['nodes']:\<close> and what follows. The value of
  \<^verbatim>\<open>nodes\<close> comes from the service and need not be a list: in a non-empty dictionary
  \<^verbatim>\<open>nodes[0]\<close> raises \<^verbatim>\<open>KeyError\<close>, on a number it raises \<^verbatim>\<open>TypeError\<close>; a
  non-empty string passes \<^verbatim>\<open>nodes[0]\<close>, and then either the classifier raises
  \<^verbatim>\<open>AttributeError\<close> (three characters or more) or \<^verbatim>\<open>holder['address']\<close> raises
  \<^verbatim>\<open>TypeError\<close>.
\<close>

definition holder_lines :: "(json list \<Rightarrow> pyfloat) \<Rightarrow> dict \<Rightarrow> exn + ftext list" where
  "holder_lines fsum token_data =
     (case map_of token_data ''nodes'' of
        None \<Rightarrow> Inr []
      | Some nodes \<Rightarrow>
          if \<not> truthy nodes then Inr []
          else
            (case nodes of
               JList (holder # rest) \<Rightarrow> holder_block fsum holder (holder # rest)
             | JList [] \<Rightarrow> Inl IndexError
             | JStr s \<Rightarrow> Inl (if py_len s < 3 then TypeError else AttributeError)
             | JDict d \<Rightarrow> Inl KeyError
             | _ \<Rightarrow> Inl TypeError))"

definition compose_response ::
  "(json list \<Rightarrow> pyfloat) \<Rightarrow> string \<Rightarrow> dict \<Rightarrow> dict option \<Rightarrow> exn + ftext list" where
  "compose_response fsum chain token_data market_data =
     try_bind (market_lines market_data) (\<lambda>market.
     try_bind (holder_lines fsum token_data) (\<lambda>holders.
     Inr (header_lines chain token_data @ market @ holders)))"

text \<open>
  Sending the result. With a screenshot path, \<^verbatim>\<open>open\<close> raises when the file does not
  exist, and the \<^verbatim>\<open>finally\<close> clause removes the file if it exists, whether the photo
  was sent or not. The result is the events, the files left, and the exception that
  leaves the block, if any.
\<close>

definition send_result ::
  "bool \<Rightarrow> string set \<Rightarrow> string option \<Rightarrow> ftext list
     \<Rightarrow> event list \<times> string set \<times> exn option" where
  "send_result photo_accepted files screenshot_path response =
     (case screenshot_path of
        None \<Rightarrow>
          ([ReplyText (py_join [Lit newline] response) (Some ''Markdown'') True], files, None)
      | Some path \<Rightarrow>
          if path = []
          then ([ReplyText (py_join [Lit newline] response) (Some ''Markdown'') True],
                files, None)
          else if path \<notin> files then ([], files, Some FileNotFoundError)
          else if photo_accepted
          then ([ReplyPhoto path (py_join [Lit newline] response) (Some ''Markdown'')],
                files - {path}, None)
          else ([], files - {path}, Some TelegramError))"

text \<open>
  The body of the handler's \<^verbatim>\<open>try\<close>: the three fetches, the early return when there is
  no holder data, the composition and the sending.
\<close>

definition process_request ::
  "env \<Rightarrow> string set \<Rightarrow> string \<Rightarrow> string \<Rightarrow> event list \<times> string set \<times> exn option" where
  "process_request e files contract_address chain =
     (case get_token_data contract_address chain (token_http e) of
        (token_events, token_data) \<Rightarrow>
     (case (if chain \<noteq> ''sol'' then get_market_data contract_address chain (market_http e)
            else ([], None)) of
        (market_events, market_data) \<Rightarrow>
     (case generate_screenshot contract_address chain (shot e) files of
        (shot_events, screenshot_path, files1) \<Rightarrow>
     (case token_data of
        None \<Rightarrow>
          (token_events @ market_events @ shot_events @ [ReplyText no_map_text None False],
           files1, None)
      | Some td \<Rightarrow>
          if td = []
          then (token_events @ market_events @ shot_events
                  @ [ReplyText no_map_text None False],
                files1, None)
          else
            (case compose_response (float_sum e) chain td market_data of
               Inl x \<Rightarrow> (token_events @ market_events @ shot_events, files1, Some x)
             | Inr response \<Rightarrow>
                 (case send_result (photo_ok e) files1 screenshot_path response of
                    (send_events, files2, x) \<Rightarrow>
                      (token_events @ market_events @ shot_events @ send_events,
                       files2, x)))))))"

text \<open>
  The handler: the input check, the acknowledgement, the body, and the handler of
  \<^verbatim>\<open>except Exception\<close> around it. It takes the files on disk and returns them with
  the events.
\<close>

definition handle_contract :: "env \<Rightarrow> string set \<Rightarrow> string \<Rightarrow> event list \<times> string set" where
  "handle_contract e files message_text =
     (case py_split (py_strip message_text) of
        [contract_address, chain_word] \<Rightarrow>
          if py_lower chain_word \<in> set SUPPORTED_CHAINS
          then
            (case process_request e files contract_address (py_lower chain_word) of
               (evs, files', x) \<Rightarrow>
                 ([Log INFO [Lit ''Processing contract: '', Lit contract_address, Lit '' on '',
                             Lit (py_lower chain_word)],
                   ReplyText processing_text None False]
                  @ evs
                  @ (case x of
                       None \<Rightarrow> []
                     | Some err \<Rightarrow>
                         [Log ERROR [Lit ''Processing error: '', ExnText err],
                          ReplyText error_text None False]),
                  files'))
          else ([ReplyText usage_text (Some ''Markdown'') False], files)
      | _ \<Rightarrow> ([ReplyText usage_text (Some ''Markdown'') False], files))"

section \<open>Holder records as the specification describes them\<close>

text \<open>
  The specification's holder record carries an address and a percentage. \<open>holder_record\<close>
  admits the records the classifier is meant to accept: dictionaries whose percentage
  field, when present, is a number; an integer percentage is at most \<open>2 ^ 1000\<close> in
  magnitude, so that ten of them still sum within the range of a float.
  \<open>addressed_record\<close> asks for the address as well. \<open>whole_record\<close> admits the records
  whose percentage, when present, is an integer, and \<open>spec_percentage\<close> is the share the
  specification assigns to such a record: its percentage, and 0 when the field is missing.
  \<open>py_ge\<close> is Python's \<^verbatim>\<open>>=\<close> on two sums.
\<close>

definition percentage_ok :: "json \<Rightarrow> bool" where
  "percentage_ok p \<longleftrightarrow>
     is_number p \<and> (case int_val p of None \<Rightarrow> True | Some i \<Rightarrow> \<bar>i\<bar> \<le> 2 ^ 1000)"

definition holder_record :: "json \<Rightarrow> bool" where
  "holder_record n =
     (case n of
        JDict d \<Rightarrow> (case map_of d ''percentage'' of None \<Rightarrow> True | Some p \<Rightarrow> percentage_ok p)
      | _ \<Rightarrow> False)"

definition addressed_record :: "json \<Rightarrow> bool" where
  "addressed_record n \<longleftrightarrow>
     holder_record n \<and> (case n of JDict d \<Rightarrow> map_of d ''address'' \<noteq> None | _ \<Rightarrow> False)"

definition whole_record :: "json \<Rightarrow> bool" where
  "whole_record n =
     (case n of
        JDict d \<Rightarrow> (case map_of d ''percentage'' of None \<Rightarrow> True | Some p \<Rightarrow> int_val p \<noteq> None)
      | _ \<Rightarrow> False)"

definition spec_percentage :: "json \<Rightarrow> int" where
  "spec_percentage n =
     (case n of
        JDict d \<Rightarrow>
          (case map_of d ''percentage'' of
             None \<Rightarrow> 0
           | Some p \<Rightarrow> (case int_val p of None \<Rightarrow> 0 | Some i \<Rightarrow> i))
      | _ \<Rightarrow> 0)"

fun py_rank :: "pynum \<Rightarrow> (int \<times> rat) option" where
  "py_rank (PyInt i) = Some (0, of_int i)"
| "py_rank (PyFloat (Finite r)) = Some (0, r)"
| "py_rank (PyFloat (Special NegZero)) = Some (0, 0)"
| "py_rank (PyFloat (Special PosInf)) = Some (1, 0)"
| "py_rank (PyFloat (Special NegInf)) = Some (- 1, 0)"
| "py_rank (PyFloat (Special NaN)) = None"

definition py_ge :: "pynum \<Rightarrow> pynum \<Rightarrow> bool" where
  "py_ge a b =
     (case (py_rank a, py_rank b) of
        (Some (m, x), Some (n, y)) \<Rightarrow> m > n \<or> (m = n \<and> x \<ge> y)
      | _ \<Rightarrow> False)"

section \<open>Example data\<close>

text \<open>
  A summation without rounding error. On numbers whose partial sums are floats, such as
  those of the examples below, every float summation returns the exact sum, and so does
  this one. A token with three holders, a request for it whose market fetch is answered
  500, and the response composed for that request.
\<close>

definition exact_fsum :: "json list \<Rightarrow> pyfloat" where
  "exact_fsum seen =
     Finite (sum_list (map (\<lambda>v. case v of JFloat r \<Rightarrow> r
                                  | _ \<Rightarrow> (case int_val v of None \<Rightarrow> 0 | Some i \<Rightarrow> of_int i)) seen))"

definition example_top_holder :: json where
  "example_top_holder = JDict [(''address'', JStr ''0x1''), (''percentage'', JFloat 60)]"

definition example_other_holders :: "json list" where
  "example_other_holders =
     [JDict [(''address'', JStr ''0x2'')],
      JDict [(''address'', JStr ''0x3''), (''percentage'', JInt 10)]]"

definition example_token_data :: dict where
  "example_token_data =
     [(''nodes'', JList (example_top_holder # example_other_holders)),
      (''token_address'', JStr ''0xabc''),
      (''symbol'', JStr ''N/A''), (''full_name'', JStr ''N/A'')]"

definition example_env :: env where
  "example_env =
     \<lparr>token_http =
        Response 200 (Some (JDict [(''nodes'', JList (example_top_holder # example_other_holders))])),
      market_http = Response 500 None, shot = Saved, photo_ok = True,
      float_sum = exact_fsum\<rparr>"

definition example_response :: "ftext list" where
  "example_response =
     [[Lit (bar_chart @ '' *''), Val (JStr ''N/A''), Lit '' ('', Val (JStr ''N/A''), Lit '')*''],
      [],
      [Lit (bullet @ '' Network: ''), Lit ''ETH''],
      [Lit (bullet @ '' Address: `''), Val (JStr ''0xabc''), Lit ''`''],
      [Lit (bullet @ '' Updated: ''), Val (JStr ''N/A'')],
      [],
      [Lit (trophy @ '' *Top Holder:*'')],
      [Lit (bullet @ '' Address: `''), Val (JStr ''0x1''), Lit ''`''],
      [Lit (bullet @ '' Percentage: ''), Fixed 2 False (JFloat 60), Lit ''%''],
      [],
      [Lit (magnifier @ '' *Decentralization Analysis:*'')],
      [Lit (bullet @ '' Score: ''), Val (JInt 3), Lit ''/5''],
      [Lit (bullet @ '' Description: ''), Lit ''Medium decentralization'']]"

section \<open>Properties of the classifier\<close>

lemma analyze_returns_of_sum:
  "top10_percentage fsum nodes = Inr t \<Longrightarrow> \<exists>v. analyze_decentralization fsum nodes = Inr v"
  by (simp add: analyze_decentralization_def)

lemma analyze_score_of_sum:
  assumes "3 \<le> length nodes" and "top10_percentage fsum nodes = Inr t"
  shows "\<exists>v. analyze_decentralization fsum nodes = Inr v \<and>
           score v = (if py_gt t 90 then 1 else if py_gt t 70 then 2 else if py_gt t 50 then 3
                      else if py_gt t 30 then 4 else 5)"
proof -
  from assms(1) have "nodes \<noteq> []" and "\<not> length nodes < 3"
    by auto
  with assms(2) show ?thesis
    by (simp add: analyze_decentralization_def)
qed

lemma sum_add_raises:
  "sum_add seen v = Inl x \<Longrightarrow> x = TypeError \<or> x = OverflowError"
  by (auto simp: sum_add_def split: if_splits option.splits)

lemma sum_percentage_raises:
  "sum_percentage seen ns = Inl x \<Longrightarrow>
   x = AttributeError \<or> x = TypeError \<or> x = OverflowError"
proof (induction ns arbitrary: seen)
  case Nil
  then show ?case by simp
next
  case (Cons n ns)
  show ?case
  proof (cases "py_get n ''percentage'' (JInt 0)")
    case (Inl e)
    with Cons.prems have "x = e" by simp
    moreover from Inl have "e = AttributeError" by (cases n) simp_all
    ultimately show ?thesis by simp
  next
    case (Inr v)
    show ?thesis
    proof (cases "sum_add seen v")
      case (Inl e)
      with Inr Cons.prems have "x = e" by simp
      with sum_add_raises [OF Inl] show ?thesis by simp
    next
      case Inr2: (Inr seen')
      with Inr Cons.prems have "sum_percentage seen' ns = Inl x" by simp
      then show ?thesis by (rule Cons.IH)
    qed
  qed
qed

lemma py_gt_mono: "py_ge s t \<Longrightarrow> py_gt t k \<Longrightarrow> py_gt s k"
proof -
  assume a: "py_ge s t" "py_gt t k"
  obtain m x where s: "py_rank s = Some (m, x)"
    using a(1) by (auto simp: py_ge_def split: option.splits)
  obtain n y where t: "py_rank t = Some (n, y)"
    using a(1) by (auto simp: py_ge_def split: option.splits)
  from a(1) s t have o: "m > n \<or> (m = n \<and> x \<ge> y)"
    by (simp add: py_ge_def)
  have gt: "\<And>u p q. py_rank u = Some (p, q) \<Longrightarrow> py_gt u k \<longleftrightarrow> p = 1 \<or> (p = 0 \<and> q > of_int k)"
  proof -
    fix u p q assume "py_rank u = Some (p, q)"
    then show "py_gt u k \<longleftrightarrow> p = 1 \<or> (p = 0 \<and> q > of_int k)"
      by (cases u rule: py_rank.cases) auto
  qed
  have rk: "\<And>u p q. py_rank u = Some (p, q) \<Longrightarrow> p = 1 \<or> p = 0 \<or> p = - 1"
  proof -
    fix u p q assume "py_rank u = Some (p, q)"
    then show "p = 1 \<or> p = 0 \<or> p = - 1"
      by (cases u rule: py_rank.cases) auto
  qed
  from a(2) gt [OF t] have "n = 1 \<or> (n = 0 \<and> y > of_int k)" by simp
  with o rk [OF s] have "m = 1 \<or> (m = 0 \<and> x > of_int k)" by auto
  with gt [OF s] show "py_gt s k" by simp
qed

text \<open>
  C6. A holder list with fewer than three records, the empty list included, gets score 0
  and the fixed insufficient-data description, whatever its records contain; no record is
  inspected, so even a malformed one raises nothing.
\<close>

theorem analyze_insufficient_data:
  "length nodes < 3 \<Longrightarrow>
   analyze_decentralization fsum nodes =
     Inr \<lparr>score = 0, description = ''Insufficient data for analysis''\<rparr>"
  by (simp add: analyze_decentralization_def)

theorem analyze_insufficient_data_witness:
  "length [JNull, JDict [(''percentage'', JStr ''many'')]] < 3 \<and>
   analyze_decentralization exact_fsum [JNull, JDict [(''percentage'', JStr ''many'')]] =
     Inr \<lparr>score = 0, description = ''Insufficient data for analysis''\<rparr> \<and>
   analyze_decentralization exact_fsum [] =
     Inr \<lparr>score = 0, description = ''Insufficient data for analysis''\<rparr>"
  using analyze_insufficient_data [of "[JNull, JDict [(''percentage'', JStr ''many'')]]" exact_fsum]
    analyze_insufficient_data [of "[]" exact_fsum]
  by simp

text \<open>
  C4. For a holder list of at least three records whose top-10 sum is exactly a threshold,
  as an integer or as a float, the strict comparisons put the list in the bucket below the
  threshold: a sum of exactly 90 gives score 2 (not 1), exactly 70 gives 3, exactly 50
  gives 4 and exactly 30 gives 5. This holds whatever the float summation is.
\<close>

theorem analyze_threshold_boundary:
  assumes "3 \<le> length nodes"
    and "top10_percentage fsum nodes = Inr t"
    and "t = PyInt k \<or> t = PyFloat (Finite (of_int k))"
    and "(k, s) \<in> {(90, 2), (70, 3), (50, 4), (30, 5)}"
  shows "\<exists>v. analyze_decentralization fsum nodes = Inr v \<and> score v = s \<and> score v \<noteq> 1"
proof -
  from analyze_score_of_sum [OF assms(1) assms(2)] obtain v
    where v: "analyze_decentralization fsum nodes = Inr v"
      and sc: "score v = (if py_gt t 90 then 1 else if py_gt t 70 then 2
                          else if py_gt t 50 then 3 else if py_gt t 30 then 4 else 5)"
    by blast
  from assms(4) have "k = 90 \<and> s = 2 \<or> k = 70 \<and> s = 3 \<or> k = 50 \<and> s = 4 \<or> k = 30 \<and> s = 5"
    by auto
  with sc assms(3) have "score v = s \<and> score v \<noteq> 1"
    by auto
  with v show ?thesis
    by blast
qed

theorem analyze_threshold_boundary_witness:
  "(\<exists>v. analyze_decentralization exact_fsum
          [JDict [(''percentage'', JFloat 45)], JDict [(''percentage'', JFloat 30)],
           JDict [(''percentage'', JInt 15)]] = Inr v \<and> score v = 2 \<and> score v \<noteq> 1) \<and>
   (\<exists>v. analyze_decentralization exact_fsum
          [JDict [(''percentage'', JInt 40)], JDict [(''percentage'', JInt 20)],
           JDict [(''percentage'', JInt 10)]] = Inr v \<and> score v = 3 \<and> score v \<noteq> 1) \<and>
   (\<exists>v. analyze_decentralization exact_fsum
          [JDict [(''percentage'', JFloat 25)], JDict [(''percentage'', JFloat 15)],
           JDict [(''percentage'', JInt 10)]] = Inr v \<and> score v = 4 \<and> score v \<noteq> 1) \<and>
   (\<exists>v. analyze_decentralization exact_fsum
          [JDict [(''percentage'', JInt 15)], JDict [(''percentage'', JInt 10)],
           JDict [(''percentage'', JInt 5)]] = Inr v \<and> score v = 5 \<and> score v \<noteq> 1)"
proof (intro conjI)
  show "\<exists>v. analyze_decentralization exact_fsum
          [JDict [(''percentage'', JFloat 45)], JDict [(''percentage'', JFloat 30)],
           JDict [(''percentage'', JInt 15)]] = Inr v \<and> score v = 2 \<and> score v \<noteq> 1"
    by (rule analyze_threshold_boundary [where t = "PyFloat (Finite 90)" and k = 90])
      (simp_all add: top10_percentage_def sum_add_def sum_value_def all_ints_def int_total_def
        is_number_def int_fits_float_def dict_get_def exact_fsum_def)
  show "\<exists>v. analyze_decentralization exact_fsum
          [JDict [(''percentage'', JInt 40)], JDict [(''percentage'', JInt 20)],
           JDict [(''percentage'', JInt 10)]] = Inr v \<and> score v = 3 \<and> score v \<noteq> 1"
    by (rule analyze_threshold_boundary [where t = "PyInt 70" and k = 70])
      (simp_all add: top10_percentage_def sum_add_def sum_value_def all_ints_def int_total_def
        is_number_def int_fits_float_def dict_get_def exact_fsum_def)
  show "\<exists>v. analyze_decentralization exact_fsum
          [JDict [(''percentage'', JFloat 25)], JDict [(''percentage'', JFloat 15)],
           JDict [(''percentage'', JInt 10)]] = Inr v \<and> score v = 4 \<and> score v \<noteq> 1"
    by (rule analyze_threshold_boundary [where t = "PyFloat (Finite 50)" and k = 50])
      (simp_all add: top10_percentage_def sum_add_def sum_value_def all_ints_def int_total_def
        is_number_def int_fits_float_def dict_get_def exact_fsum_def)
  show "\<exists>v. analyze_decentralization exact_fsum
          [JDict [(''percentage'', JInt 15)], JDict [(''percentage'', JInt 10)],
           JDict [(''percentage'', JInt 5)]] = Inr v \<and> score v = 5 \<and> score v \<noteq> 1"
    by (rule analyze_threshold_boundary [where t = "PyInt 30" and k = 30])
      (simp_all add: top10_percentage_def sum_add_def sum_value_def all_ints_def int_total_def
        is_number_def int_fits_float_def dict_get_def exact_fsum_def)
qed

text \<open>
  C5. Among holder lists of at least three records, a list whose top-10 sum is greater
  than or equal to that of another (by Python's comparison) gets a score no greater than
  the other's: the score does not increase with the sum. And for every holder list the
  classifier either returns a score among 0, 1, 2, 3, 4, 5, or raises on a record it
  cannot add (\<^verbatim>\<open>AttributeError\<close>, \<^verbatim>\<open>TypeError\<close>, \<^verbatim>\<open>OverflowError\<close>).
\<close>

theorem analyze_monotone_and_range:
  "(3 \<le> length xs \<and> 3 \<le> length ys \<and>
    top10_percentage fsum xs = Inr s \<and> top10_percentage fsum ys = Inr t \<and> py_ge s t \<longrightarrow>
      (\<exists>v w. analyze_decentralization fsum xs = Inr v \<and>
             analyze_decentralization fsum ys = Inr w \<and> score v \<le> score w)) \<and>
   (case analyze_decentralization fsum zs of
      Inl x \<Rightarrow> x = AttributeError \<or> x = TypeError \<or> x = OverflowError
    | Inr u \<Rightarrow> score u = 0 \<or> score u = 1 \<or> score u = 2 \<or> score u = 3 \<or> score u = 4 \<or> score u = 5)"
proof (intro conjI impI)
  assume a: "3 \<le> length xs \<and> 3 \<le> length ys \<and>
    top10_percentage fsum xs = Inr s \<and> top10_percentage fsum ys = Inr t \<and> py_ge s t"
  from a analyze_score_of_sum [of xs fsum s] obtain v
    where v: "analyze_decentralization fsum xs = Inr v"
      and sv: "score v = (if py_gt s 90 then 1 else if py_gt s 70 then 2 else if py_gt s 50 then 3
                          else if py_gt s 30 then 4 else 5)"
    by blast
  from a analyze_score_of_sum [of ys fsum t] obtain w
    where w: "analyze_decentralization fsum ys = Inr w"
      and sw: "score w = (if py_gt t 90 then 1 else if py_gt t 70 then 2 else if py_gt t 50 then 3
                          else if py_gt t 30 then 4 else 5)"
    by blast
  from a have ge: "py_ge s t" by simp
  have m: "\<And>k. py_gt t k \<Longrightarrow> py_gt s k"
    using ge by (rule py_gt_mono)
  from sv sw m [of 90] m [of 70] m [of 50] m [of 30] have "score v \<le> score w"
    by (simp split: if_splits)
  with v w show "\<exists>v w. analyze_decentralization fsum xs = Inr v \<and>
      analyze_decentralization fsum ys = Inr w \<and> score v \<le> score w"
    by blast
next
  show "case analyze_decentralization fsum zs of
      Inl x \<Rightarrow> x = AttributeError \<or> x = TypeError \<or> x = OverflowError
    | Inr u \<Rightarrow> score u = 0 \<or> score u = 1 \<or> score u = 2 \<or> score u = 3 \<or> score u = 4 \<or> score u = 5"
  proof (cases "sum_percentage [] (take 10 zs)")
    case (Inl x)
    then have "x = AttributeError \<or> x = TypeError \<or> x = OverflowError"
      by (rule sum_percentage_raises)
    with Inl show ?thesis
      by (simp add: analyze_decentralization_def top10_percentage_def)
  next
    case (Inr t)
    then show ?thesis
      by (simp add: analyze_decentralization_def top10_percentage_def)
  qed
qed

theorem analyze_monotone_and_range_witness:
  "3 \<le> length [JDict [(''percentage'', JFloat 60)], JDict [(''percentage'', JInt 30)],
                JDict [(''percentage'', JInt 5)]] \<and>
   3 \<le> length [JDict [(''percentage'', JInt 40)], JDict [(''percentage'', JInt 15)],
                JDict [], JDict [(''percentage'', JInt 5)]] \<and>
   top10_percentage exact_fsum
       [JDict [(''percentage'', JFloat 60)], JDict [(''percentage'', JInt 30)],
        JDict [(''percentage'', JInt 5)]] = Inr (PyFloat (Finite 95)) \<and>
   top10_percentage exact_fsum
       [JDict [(''percentage'', JInt 40)], JDict [(''percentage'', JInt 15)],
        JDict [], JDict [(''percentage'', JInt 5)]] = Inr (PyInt 60) \<and>
   py_ge (PyFloat (Finite 95)) (PyInt 60) \<and>
   (\<exists>v w. analyze_decentralization exact_fsum
            [JDict [(''percentage'', JFloat 60)], JDict [(''percentage'', JInt 30)],
             JDict [(''percentage'', JInt 5)]] = Inr v \<and>
          analyze_decentralization exact_fsum
            [JDict [(''percentage'', JInt 40)], JDict [(''percentage'', JInt 15)],
             JDict [], JDict [(''percentage'', JInt 5)]] = Inr w \<and>
          score v \<le> score w)"
proof -
  have h: "3 \<le> length [JDict [(''percentage'', JFloat 60)], JDict [(''percentage'', JInt 30)],
                JDict [(''percentage'', JInt 5)]] \<and>
   3 \<le> length [JDict [(''percentage'', JInt 40)], JDict [(''percentage'', JInt 15)],
                JDict [], JDict [(''percentage'', JInt 5)]] \<and>
   top10_percentage exact_fsum
       [JDict [(''percentage'', JFloat 60)], JDict [(''percentage'', JInt 30)],
        JDict [(''percentage'', JInt 5)]] = Inr (PyFloat (Finite 95)) \<and>
   top10_percentage exact_fsum
       [JDict [(''percentage'', JInt 40)], JDict [(''percentage'', JInt 15)],
        JDict [], JDict [(''percentage'', JInt 5)]] = Inr (PyInt 60) \<and>
   py_ge (PyFloat (Finite 95)) (PyInt 60)"
    by (simp add: top10_percentage_def sum_add_def sum_value_def all_ints_def int_total_def
        is_number_def int_fits_float_def dict_get_def exact_fsum_def py_ge_def)
  from analyze_monotone_and_range
    [of "[JDict [(''percentage'', JFloat 60)], JDict [(''percentage'', JInt 30)],
          JDict [(''percentage'', JInt 5)]]"
        "[JDict [(''percentage'', JInt 40)], JDict [(''percentage'', JInt 15)],
          JDict [], JDict [(''percentage'', JInt 5)]]"
        exact_fsum "PyFloat (Finite 95)" "PyInt 60" "[]"] h
  show ?thesis
    by blast
qed

lemma int_total_append: "int_total (xs @ ys) = int_total xs + int_total ys"
  by (simp add: int_total_def)

lemma all_ints_append: "all_ints (xs @ ys) \<longleftrightarrow> all_ints xs \<and> all_ints ys"
  by (simp add: all_ints_def)

lemma int_total_bound:
  "list_all percentage_ok seen \<Longrightarrow> \<bar>int_total seen\<bar> \<le> int (length seen) * 2 ^ 1000"
proof (induction seen)
  case Nil
  then show ?case by (simp add: int_total_def)
next
  case (Cons v seen)
  then have ih: "\<bar>int_total seen\<bar> \<le> int (length seen) * 2 ^ 1000" by simp
  from Cons.prems have "\<bar>case int_val v of None \<Rightarrow> 0 | Some i \<Rightarrow> i\<bar> \<le> 2 ^ 1000"
    by (auto simp: percentage_ok_def split: option.splits)
  moreover have "int_total (v # seen) = (case int_val v of None \<Rightarrow> 0 | Some i \<Rightarrow> i) + int_total seen"
    by (simp add: int_total_def)
  ultimately show ?case
    using ih by (simp add: algebra_simps)
qed

lemma small_int_fits: "\<bar>i\<bar> \<le> 10 * 2 ^ 1000 \<Longrightarrow> int_fits_float i"
proof -
  assume a: "\<bar>i\<bar> \<le> 10 * 2 ^ 1000"
  have "(10::int) * 2 ^ 1000 < 16 * 2 ^ 1000" by simp
  also have "(16::int) * 2 ^ 1000 = 2 ^ 1004" by simp
  also have "(2::int) ^ 1004 \<le> 2 ^ 1023" by (rule power_increasing) simp_all
  also have "(2::int) ^ 1023 = 2 ^ 1024 - 2 ^ 1023" by simp
  also have "\<dots> < 2 ^ 1024 - 2 ^ 970"
  proof -
    have "(2::int) ^ 970 < 2 ^ 1023" by (rule power_strict_increasing) simp_all
    then show ?thesis by simp
  qed
  finally show ?thesis using a by (simp add: int_fits_float_def)
qed

lemma sum_add_ok:
  assumes "list_all percentage_ok seen" and "length seen < 10" and "percentage_ok v"
  shows "sum_add seen v = Inr (seen @ [v])"
proof -
  from assms(3) have n: "is_number v" by (simp add: percentage_ok_def)
  from int_total_bound [OF assms(1)] assms(2)
  have "\<bar>int_total seen\<bar> \<le> 10 * 2 ^ 1000"
  proof -
    have "int (length seen) * 2 ^ 1000 \<le> 10 * (2::int) ^ 1000"
      using assms(2) by (intro mult_right_mono) simp_all
    with int_total_bound [OF assms(1)] show ?thesis by linarith
  qed
  then have t: "int_fits_float (int_total seen)" by (rule small_int_fits)
  have i: "\<And>i. int_val v = Some i \<Longrightarrow> int_fits_float i"
  proof -
    fix i assume "int_val v = Some i"
    with assms(3) have "\<bar>i\<bar> \<le> 2 ^ 1000" by (simp add: percentage_ok_def)
    then have "\<bar>i\<bar> \<le> 10 * 2 ^ 1000" by simp
    then show "int_fits_float i" by (rule small_int_fits)
  qed
  from n t i show ?thesis
    by (auto simp: sum_add_def split: option.splits)
qed

lemma holder_record_percentage:
  "holder_record n \<Longrightarrow> \<exists>d. n = JDict d \<and> percentage_ok (dict_get d ''percentage'' (JInt 0))"
  by (cases n)
    (auto simp: holder_record_def dict_get_def percentage_ok_def is_number_def
      split: option.splits)

lemma sum_percentage_total:
  assumes "list_all holder_record ns" and "list_all percentage_ok seen"
    and "length seen + length ns \<le> 10"
  shows "\<exists>seen'. sum_percentage seen ns = Inr seen'"
  using assms
proof (induction ns arbitrary: seen)
  case Nil
  then show ?case by simp
next
  case (Cons n ns)
  from Cons.prems(1) obtain d where d: "n = JDict d"
    and ok: "percentage_ok (dict_get d ''percentage'' (JInt 0))"
    using holder_record_percentage [of n] by auto
  from Cons.prems(3) have len: "length seen < 10" by simp
  have add: "sum_add seen (dict_get d ''percentage'' (JInt 0)) =
      Inr (seen @ [dict_get d ''percentage'' (JInt 0)])"
    using Cons.prems(2) len ok by (rule sum_add_ok)
  have "\<exists>seen'. sum_percentage (seen @ [dict_get d ''percentage'' (JInt 0)]) ns = Inr seen'"
    using Cons.prems ok by (intro Cons.IH) simp_all
  with d add show ?case by simp
qed

lemma sum_percentage_whole:
  assumes "list_all whole_record ns" and "all_ints seen"
  shows "\<exists>seen'. sum_percentage seen ns = Inr seen' \<and> all_ints seen' \<and>
           int_total seen' = int_total seen + sum_list (map spec_percentage ns)"
  using assms
proof (induction ns arbitrary: seen)
  case Nil
  then show ?case by simp
next
  case (Cons n ns)
  from Cons.prems(1) obtain d where d: "n = JDict d"
    by (cases n) (simp_all add: whole_record_def)
  define v where "v = dict_get d ''percentage'' (JInt 0)"
  from Cons.prems(1) d obtain i where i: "int_val v = Some i" and sp: "spec_percentage n = i"
    by (auto simp: whole_record_def spec_percentage_def v_def dict_get_def split: option.splits)
  from i have nf: "\<not> is_float v" by (cases v) simp_all
  from i have add: "sum_add seen v = Inr (seen @ [v])"
    using Cons.prems(2) nf by (simp add: sum_add_def is_number_def)
  have ai: "all_ints (seen @ [v])"
    using Cons.prems(2) nf by (simp add: all_ints_def)
  have it: "int_total (seen @ [v]) = int_total seen + i"
    using i by (simp add: int_total_def)
  from Cons.prems(1) have "list_all whole_record ns" by simp
  from Cons.IH [OF this ai] obtain seen' where
    "sum_percentage (seen @ [v]) ns = Inr seen'" "all_ints seen'"
    "int_total seen' = int_total (seen @ [v]) + sum_list (map spec_percentage ns)"
    by blast
  with d add it sp show ?case
    by (simp add: v_def)
qed

text \<open>
  C10. A record without a percentage field adds the integer 0 to the running sum and
  raises nothing. When each of the first ten records is a dictionary whose percentage is
  missing or an integer, the top-10 sum is the exact sum of the percentages with 0 for
  every missing one. When each of them is a holder record (percentage missing or a
  number), the sum is computed and the classifier returns a verdict.
\<close>

theorem missing_percentage_counts_zero:
  "(map_of d ''percentage'' = None \<longrightarrow>
      sum_percentage seen (JDict d # rest) = sum_percentage (seen @ [JInt 0]) rest \<and>
      int_total (seen @ [JInt 0]) = int_total seen \<and>
      spec_percentage (JDict d) = 0) \<and>
   (list_all whole_record (take 10 nodes) \<longrightarrow>
      top10_percentage fsum nodes =
        Inr (PyInt (sum_list (map spec_percentage (take 10 nodes))))) \<and>
   (list_all holder_record (take 10 nodes) \<longrightarrow>
      (\<exists>t. top10_percentage fsum nodes = Inr t) \<and>
      (\<exists>v. analyze_decentralization fsum nodes = Inr v))"
proof (intro conjI impI)
  assume m: "map_of d ''percentage'' = None"
  have "sum_add seen (JInt 0) = Inr (seen @ [JInt 0])"
    by (simp add: sum_add_def is_number_def int_fits_float_def)
  with m show "sum_percentage seen (JDict d # rest) = sum_percentage (seen @ [JInt 0]) rest"
    by (simp add: dict_get_def)
  show "int_total (seen @ [JInt 0]) = int_total seen"
    by (simp add: int_total_def)
  from m show "spec_percentage (JDict d) = 0"
    by (simp add: spec_percentage_def)
next
  assume "list_all whole_record (take 10 nodes)"
  from sum_percentage_whole [OF this, of "[]"] obtain seen' where
    "sum_percentage [] (take 10 nodes) = Inr seen'" "all_ints seen'"
    "int_total seen' = sum_list (map spec_percentage (take 10 nodes))"
    by (auto simp: all_ints_def int_total_def)
  then show "top10_percentage fsum nodes =
        Inr (PyInt (sum_list (map spec_percentage (take 10 nodes))))"
    by (simp add: top10_percentage_def sum_value_def)
next
  assume "list_all holder_record (take 10 nodes)"
  from sum_percentage_total [OF this, of "[]"] obtain seen' where
    "sum_percentage [] (take 10 nodes) = Inr seen'"
    by auto
  then show t: "\<exists>t. top10_percentage fsum nodes = Inr t"
    by (simp add: top10_percentage_def)
  then show "\<exists>v. analyze_decentralization fsum nodes = Inr v"
    using analyze_returns_of_sum by blast
qed


theorem missing_percentage_counts_zero_witness:
  "map_of [(''address'', JStr ''0x1'')] ''percentage'' = None \<and>
   sum_percentage [JInt 7] [JDict [(''address'', JStr ''0x1'')], JDict [(''percentage'', JInt 5)]] =
     sum_percentage ([JInt 7] @ [JInt 0]) [JDict [(''percentage'', JInt 5)]] \<and>
   list_all whole_record
     (take 10 [JDict [(''address'', JStr ''0x1'')], JDict [(''percentage'', JInt 80)],
               JDict [], JDict [(''percentage'', JInt 15)]]) \<and>
   list_all holder_record
     (take 10 [JDict [(''address'', JStr ''0x1'')], JDict [(''percentage'', JInt 80)],
               JDict [], JDict [(''percentage'', JInt 15)]]) \<and>
   top10_percentage exact_fsum
     [JDict [(''address'', JStr ''0x1'')], JDict [(''percentage'', JInt 80)],
      JDict [], JDict [(''percentage'', JInt 15)]] = Inr (PyInt 95) \<and>
   (\<exists>v. analyze_decentralization exact_fsum
          [JDict [(''address'', JStr ''0x1'')], JDict [(''percentage'', JInt 80)],
           JDict [], JDict [(''percentage'', JInt 15)]] = Inr v)"
proof -
  have h1: "map_of [(''address'', JStr ''0x1'')] ''percentage'' = None"
    by simp
  have h2: "list_all whole_record
     (take 10 [JDict [(''address'', JStr ''0x1'')], JDict [(''percentage'', JInt 80)],
               JDict [], JDict [(''percentage'', JInt 15)]])"
    by (simp add: whole_record_def)
  have h3: "list_all holder_record
     (take 10 [JDict [(''address'', JStr ''0x1'')], JDict [(''percentage'', JInt 80)],
               JDict [], JDict [(''percentage'', JInt 15)]])"
    by (simp add: holder_record_def percentage_ok_def is_number_def)
  have sp: "sum_list (map spec_percentage
     (take 10 [JDict [(''address'', JStr ''0x1'')], JDict [(''percentage'', JInt 80)],
               JDict [], JDict [(''percentage'', JInt 15)]])) = 95"
    by (simp add: spec_percentage_def)
  from missing_percentage_counts_zero
    [of "[(''address'', JStr ''0x1'')]" "[JInt 7]" "[JDict [(''percentage'', JInt 5)]]"
        "[JDict [(''address'', JStr ''0x1'')], JDict [(''percentage'', JInt 80)],
          JDict [], JDict [(''percentage'', JInt 15)]]" exact_fsum] h1 h2 h3
  show ?thesis
    unfolding sp by blast
qed

section \<open>Properties of the fetchers and of the handler\<close>

lemma replies_append: "replies (xs @ ys) = replies xs @ replies ys"
  by (simp add: replies_def)

lemma replies_get_token_data: "replies (fst (get_token_data a c h)) = []"
  by (cases h)
    (auto simp: get_token_data_def get_token_data_try_def replies_def
      split: option.splits json.splits)

lemma replies_get_market_data: "replies (fst (get_market_data a c h)) = []"
  by (simp add: get_market_data_def replies_def split: option.splits sum.splits)

lemma replies_generate_screenshot: "replies (fst (generate_screenshot a c outcome files)) = []"
  by (cases outcome) (simp_all add: generate_screenshot_def replies_def Let_def)

lemma update_not_Nil: "AList.update k v al \<noteq> []"
  by (cases al) simp_all

lemma get_token_data_nonempty:
  "snd (get_token_data a c h) = Some td \<Longrightarrow> td \<noteq> []"
  by (cases h)
    (auto simp: get_token_data_def get_token_data_try_def update_not_Nil
      split: option.splits json.splits if_splits)

lemma try_bind_Inr: "try_bind m f = Inr y \<longleftrightarrow> (\<exists>x. m = Inr x \<and> f x = Inr y)"
  by (cases m) simp_all

lemma handle_contract_accepts:
  assumes "py_split (py_strip message_text) = [a, w]"
    and "py_lower w \<in> set SUPPORTED_CHAINS"
  shows "handle_contract e files message_text =
           ([Log INFO [Lit ''Processing contract: '', Lit a, Lit '' on '', Lit (py_lower w)],
             ReplyText processing_text None False]
            @ fst (process_request e files a (py_lower w))
            @ (case snd (snd (process_request e files a (py_lower w))) of
                 None \<Rightarrow> []
               | Some err \<Rightarrow>
                   [Log ERROR [Lit ''Processing error: '', ExnText err],
                    ReplyText error_text None False]),
            fst (snd (process_request e files a (py_lower w))))"
  using assms by (simp add: handle_contract_def split: prod.splits)

lemma process_request_no_token:
  assumes "snd (get_token_data a c (token_http e)) = None"
  shows "replies (fst (process_request e files a c)) = [ReplyText no_map_text None False]"
    and "snd (snd (process_request e files a c)) = None"
    and "fst (snd (process_request e files a c)) =
           snd (snd (generate_screenshot a c (shot e) files))"
proof -
  obtain tev td where t: "get_token_data a c (token_http e) = (tev, td)"
    by (cases "get_token_data a c (token_http e)")
  obtain mev md where m: "(if c \<noteq> ''sol'' then get_market_data a c (market_http e)
            else ([], None)) = (mev, md)"
    by (cases "if c \<noteq> ''sol'' then get_market_data a c (market_http e) else ([], None)")
  obtain sev sp fs where s: "generate_screenshot a c (shot e) files = (sev, sp, fs)"
    by (cases "generate_screenshot a c (shot e) files")
  from t assms have td: "td = None" by simp
  from t have rt: "replies tev = []"
    using replies_get_token_data [of a c "token_http e"] by simp
  from m have rm: "replies mev = []"
    using replies_get_market_data [of a c "market_http e"]
    by (auto simp: replies_def split: if_splits)
  from s have rs: "replies sev = []"
    using replies_generate_screenshot [of a c "shot e" files] by simp
  have p: "process_request e files a c =
      (tev @ mev @ sev @ [ReplyText no_map_text None False], fs, None)"
    unfolding process_request_def t m s td by simp
  show "replies (fst (process_request e files a c)) = [ReplyText no_map_text None False]"
    by (simp add: p replies_append rt rm rs) (simp add: replies_def)
  show "snd (snd (process_request e files a c)) = None"
    by (simp add: p)
  show "fst (snd (process_request e files a c)) =
           snd (snd (generate_screenshot a c (shot e) files))"
    by (simp add: p s)
qed

lemma no_token_replies:
  assumes "py_split (py_strip message_text) = [a, w]"
    and "py_lower w \<in> set SUPPORTED_CHAINS"
    and "snd (get_token_data a (py_lower w) (token_http e)) = None"
  shows "replies (fst (handle_contract e files message_text)) =
           [ReplyText processing_text None False, ReplyText no_map_text None False]"
  using process_request_no_token(1,2) [OF assms(3), of files]
  by (simp add: handle_contract_accepts [OF assms(1,2)] replies_append)
    (simp add: replies_def)

lemma market_record_keys:
  "market_record data = Inr md \<Longrightarrow>
   map fst md = [''price'', ''market_cap'', ''volume'', ''price_change_24h'']"
  by (auto simp: market_record_def try_bind_Inr)

lemma get_market_data_keys:
  assumes "snd (get_market_data a c h) = Some md"
  shows "map fst md = [''price'', ''market_cap'', ''volume'', ''price_change_24h'']"
    and "c \<noteq> ''sol''"
proof -
  from assms show "c \<noteq> ''sol''"
    by (auto simp: get_market_data_def)
  from assms obtain data where "market_record data = Inr md"
    by (cases h)
      (auto simp: get_market_data_def get_market_data_try_def try_bind_Inr
        split: if_splits option.splits sum.splits)
  then show "map fst md = [''price'', ''market_cap'', ''volume'', ''price_change_24h'']"
    by (rule market_record_keys)
qed

lemma market_record_empty:
  "map_of d ''market_data'' = None \<Longrightarrow>
   market_record (JDict d) =
     Inr [(''price'', JNull), (''market_cap'', JNull), (''volume'', JNull),
          (''price_change_24h'', JNull)]"
  by (simp add: market_record_def usd_of_def dict_get_def)

lemma get_market_data_empty:
  assumes "map_of chain_map c = Some slug" and "map_of d ''market_data'' = None"
  shows "snd (get_market_data a c (Response 200 (Some (JDict d)))) =
     Some [(''price'', JNull), (''market_cap'', JNull), (''volume'', JNull),
          (''price_change_24h'', JNull)]"
proof -
  from assms(1) have "c \<noteq> ''sol''"
    by (auto simp: chain_map_def)
  with assms show ?thesis
    by (simp add: get_market_data_def get_market_data_try_def market_record_empty)
qed

lemma fmt_fixed_null: "fmt_fixed n b JNull = Inl TypeError"
  by (simp add: fmt_fixed_def)

lemma market_lines_null:
  assumes "map_of md ''price'' = Some JNull \<or> map_of md ''market_cap'' = Some JNull \<or>
           map_of md ''volume'' = Some JNull \<or> map_of md ''price_change_24h'' = Some JNull"
  shows "\<exists>x. market_lines (Some md) = Inl x"
proof -
  from assms have ne: "md \<noteq> []" by auto
  show ?thesis
  proof (cases "market_lines (Some md)")
    case (Inl x)
    then show ?thesis by blast
  next
    case (Inr ls)
    with ne obtain p c v g where
      "fmt_fixed 6 True (dict_get md ''price'' (JStr ''N/A'')) = Inr p"
      "fmt_fixed 2 True (dict_get md ''market_cap'' (JStr ''N/A'')) = Inr c"
      "fmt_fixed 2 True (dict_get md ''volume'' (JStr ''N/A'')) = Inr v"
      "fmt_fixed 2 False (dict_get md ''price_change_24h'' (JStr ''N/A'')) = Inr g"
      by (auto simp: market_lines_def try_bind_Inr)
    with assms show ?thesis
      by (auto simp: dict_get_def fmt_fixed_null)
  qed
qed

lemma process_request_compose_raises:
  assumes "snd (get_token_data a c (token_http e)) = Some td"
    and "snd (get_market_data a c (market_http e)) = Some md"
    and "market_lines (Some md) = Inl x"
  shows "replies (fst (process_request e files a c)) = []"
    and "snd (snd (process_request e files a c)) = Some x"
    and "fst (snd (process_request e files a c)) =
           snd (snd (generate_screenshot a c (shot e) files))"
proof -
  obtain tev where t: "get_token_data a c (token_http e) = (tev, Some td)"
    using assms(1) by (cases "get_token_data a c (token_http e)") simp
  have c: "c \<noteq> ''sol''"
    using assms(2) by (rule get_market_data_keys(2))
  obtain mev where m: "get_market_data a c (market_http e) = (mev, Some md)"
    using assms(2) by (cases "get_market_data a c (market_http e)") simp
  obtain sev sp fs where s: "generate_screenshot a c (shot e) files = (sev, sp, fs)"
    by (cases "generate_screenshot a c (shot e) files")
  have td: "td \<noteq> []"
    using assms(1) by (rule get_token_data_nonempty)
  from t have rt: "replies tev = []"
    using replies_get_token_data [of a c "token_http e"] by simp
  from m have rm: "replies mev = []"
    using replies_get_market_data [of a c "market_http e"] by simp
  from s have rs: "replies sev = []"
    using replies_generate_screenshot [of a c "shot e" files] by simp
  have cr: "compose_response (float_sum e) c td (Some md) = Inl x"
    by (simp add: compose_response_def assms(3))
  have p: "process_request e files a c = (tev @ mev @ sev, fs, Some x)"
    unfolding process_request_def using c td by (simp add: t m s cr)
  show "replies (fst (process_request e files a c)) = []"
    by (simp add: p replies_append rt rm rs)
  show "snd (snd (process_request e files a c)) = Some x"
    by (simp add: p)
  show "fst (snd (process_request e files a c)) =
           snd (snd (generate_screenshot a c (shot e) files))"
    by (simp add: p s)
qed

lemma compose_raises_replies:
  assumes "py_split (py_strip message_text) = [a, w]"
    and "py_lower w \<in> set SUPPORTED_CHAINS"
    and "snd (get_token_data a (py_lower w) (token_http e)) = Some td"
    and "snd (get_market_data a (py_lower w) (market_http e)) = Some md"
    and "market_lines (Some md) = Inl x"
  shows "replies (fst (handle_contract e files message_text)) =
           [ReplyText processing_text None False, ReplyText error_text None False]"
  using process_request_compose_raises(1,2) [OF assms(3,4,5), of files]
  by (simp add: handle_contract_accepts [OF assms(1,2)] replies_append)
    (simp add: replies_def)

lemma split_0xabc_eth: "py_split (py_strip ''0xabc eth'') = [''0xabc'', ''eth'']"
  by (simp add: py_split_def py_strip_def is_space_def whitespace_def is_continuation_def)

lemma lower_eth: "py_lower ''eth'' = ''eth''"
  by (simp add: py_lower_def lower_char_def ascii_uppercase_def ascii_lowercase_def
      is_continuation_def)

lemma eth_supported: "py_lower ''eth'' \<in> set SUPPORTED_CHAINS"
  by (simp add: lower_eth SUPPORTED_CHAINS_def)

lemma no_break_space_separates:
  "py_split (py_strip (''0xabc'' @ [CHR 0xC2, CHR 0xA0] @ ''eth'')) = [''0xabc'', ''eth'']"
  by (simp add: py_split_def py_strip_def is_space_def whitespace_def is_continuation_def)

lemma eth_slug: "map_of chain_map ''eth'' = Some ''ethereum''"
  by (simp add: chain_map_def)

text \<open>
  C2, as the code has it. A response with status 401 or 404 gives absence, and so does
  every other status from 400 to 599: \<^verbatim>\<open>raise_for_status\<close> raises for it inside the
  \<^verbatim>\<open>try\<close>, and the handler \<^verbatim>\<open>except Exception\<close> of the same function logs the error
  and returns \<^verbatim>\<open>None\<close>. No status reaches the caller as a failure.
\<close>

theorem get_token_data_error_status_absent:
  "(status = 401 \<or> status = 404 \<or> (400 \<le> status \<and> status < 600) \<longrightarrow>
      snd (get_token_data a c (Response status body)) = None) \<and>
   (status \<noteq> 401 \<and> status \<noteq> 404 \<and> 400 \<le> status \<and> status < 600 \<longrightarrow>
      snd (get_token_data_try a c (Response status body)) = Inl HTTPError)"
  by (auto simp: get_token_data_def get_token_data_try_def)

theorem get_token_data_error_status_absent_witness:
  "snd (get_token_data ''0xabc'' ''eth'' (Response 401 None)) = None \<and>
   snd (get_token_data ''0xabc'' ''eth'' (Response 404 None)) = None \<and>
   snd (get_token_data ''0xabc'' ''eth'' (Response 503 (Some (JDict [])))) = None \<and>
   snd (get_token_data_try ''0xabc'' ''eth'' (Response 503 (Some (JDict [])))) = Inl HTTPError"
  using get_token_data_error_status_absent [of 401 "''0xabc''" "''eth''" None]
    get_token_data_error_status_absent [of 404 "''0xabc''" "''eth''" None]
    get_token_data_error_status_absent [of 503 "''0xabc''" "''eth''" "Some (JDict [])"]
  by simp

text \<open>
  The claim as stated fails: a response with status 500 is not propagated as a failure,
  the fetcher returns absence for it.
\<close>

theorem get_token_data_status_500_absent:
  "snd (get_token_data ''0xabc'' ''eth'' (Response 500 None)) = None"
  by (simp add: get_token_data_def get_token_data_try_def)

text \<open>
  C8. A message that does not split into exactly two tokens, or whose second token in
  lower case is no supported chain, is answered with the usage message alone: no fetcher
  runs, no network call is made, and the files are untouched.
\<close>

theorem handle_contract_rejects:
  assumes "length (py_split (py_strip message_text)) \<noteq> 2 \<or>
           py_lower (py_split (py_strip message_text) ! 1) \<notin> set SUPPORTED_CHAINS"
  shows "handle_contract e files message_text =
           ([ReplyText usage_text (Some ''Markdown'') False], files) \<and>
         network_calls (fst (handle_contract e files message_text)) = []"
proof -
  have "handle_contract e files message_text =
           ([ReplyText usage_text (Some ''Markdown'') False], files)"
    using assms
    by (auto simp: handle_contract_def split: list.splits)
  then show ?thesis
    by (simp add: network_calls_def)
qed

theorem handle_contract_rejects_witness:
  "length (py_split (py_strip ''0xabc'')) \<noteq> 2 \<and>
   length (py_split (py_strip ''0xabc eth now'')) \<noteq> 2 \<and>
   py_lower (py_split (py_strip ''0xabc doge'') ! 1) \<notin> set SUPPORTED_CHAINS \<and>
   length (py_split (py_strip (''0x'' @ [CHR 0xC2, CHR 0xA0] @ ''abc eth''))) \<noteq> 2 \<and>
   handle_contract
       \<lparr>token_http = Response 200 (Some (JDict [])), market_http = Response 200 (Some (JDict [])),
        shot = Saved, photo_ok = True, float_sum = exact_fsum\<rparr> {} ''0xabc'' =
     ([ReplyText usage_text (Some ''Markdown'') False], {}) \<and>
   network_calls (fst (handle_contract
       \<lparr>token_http = Response 200 (Some (JDict [])), market_http = Response 200 (Some (JDict [])),
        shot = Saved, photo_ok = True, float_sum = exact_fsum\<rparr> {} ''0xabc'')) = [] \<and>
   handle_contract
       \<lparr>token_http = Response 200 (Some (JDict [])), market_http = Response 200 (Some (JDict [])),
        shot = Saved, photo_ok = True, float_sum = exact_fsum\<rparr> {} ''0xabc eth now'' =
     ([ReplyText usage_text (Some ''Markdown'') False], {}) \<and>
   network_calls (fst (handle_contract
       \<lparr>token_http = Response 200 (Some (JDict [])), market_http = Response 200 (Some (JDict [])),
        shot = Saved, photo_ok = True, float_sum = exact_fsum\<rparr> {} ''0xabc eth now'')) = [] \<and>
   handle_contract
       \<lparr>token_http = Response 200 (Some (JDict [])), market_http = Response 200 (Some (JDict [])),
        shot = Saved, photo_ok = True, float_sum = exact_fsum\<rparr> {} ''0xabc doge'' =
     ([ReplyText usage_text (Some ''Markdown'') False], {}) \<and>
   network_calls (fst (handle_contract
       \<lparr>token_http = Response 200 (Some (JDict [])), market_http = Response 200 (Some (JDict [])),
        shot = Saved, photo_ok = True, float_sum = exact_fsum\<rparr> {} ''0xabc doge'')) = [] \<and>
   handle_contract
       \<lparr>token_http = Response 200 (Some (JDict [])), market_http = Response 200 (Some (JDict [])),
        shot = Saved, photo_ok = True, float_sum = exact_fsum\<rparr> {} (''0x'' @ [CHR 0xC2, CHR 0xA0] @ ''abc eth'') =
     ([ReplyText usage_text (Some ''Markdown'') False], {}) \<and>
   network_calls (fst (handle_contract
       \<lparr>token_http = Response 200 (Some (JDict [])), market_http = Response 200 (Some (JDict [])),
        shot = Saved, photo_ok = True, float_sum = exact_fsum\<rparr> {} (''0x'' @ [CHR 0xC2, CHR 0xA0] @ ''abc eth''))) = []"
proof -
  have h1: "length (py_split (py_strip ''0xabc'')) \<noteq> 2"
    by (simp add: py_split_def py_strip_def is_space_def whitespace_def is_continuation_def)
  have h2: "length (py_split (py_strip ''0xabc eth now'')) \<noteq> 2"
    by (simp add: py_split_def py_strip_def is_space_def whitespace_def is_continuation_def)
  have h3: "py_lower (py_split (py_strip ''0xabc doge'') ! 1) \<notin> set SUPPORTED_CHAINS"
    by (simp add: py_split_def py_strip_def is_space_def whitespace_def is_continuation_def
        py_lower_def lower_char_def ascii_uppercase_def ascii_lowercase_def
        SUPPORTED_CHAINS_def)
  have h4: "length (py_split (py_strip (''0x'' @ [CHR 0xC2, CHR 0xA0] @ ''abc eth''))) \<noteq> 2"
    by (simp add: py_split_def py_strip_def is_space_def whitespace_def is_continuation_def)
  from h1 h2 h3 h4
    handle_contract_rejects [of "''0xabc''" "\<lparr>token_http = Response 200 (Some (JDict [])), market_http = Response 200 (Some (JDict [])),  shot = Saved, photo_ok = True, float_sum = exact_fsum\<rparr>" "{}"]
    handle_contract_rejects [of "''0xabc eth now''" "\<lparr>token_http = Response 200 (Some (JDict [])), market_http = Response 200 (Some (JDict [])),  shot = Saved, photo_ok = True, float_sum = exact_fsum\<rparr>" "{}"]
    handle_contract_rejects [of "''0xabc doge''" "\<lparr>token_http = Response 200 (Some (JDict [])), market_http = Response 200 (Some (JDict [])),  shot = Saved, photo_ok = True, float_sum = exact_fsum\<rparr>" "{}"]
    handle_contract_rejects [of "''0x'' @ [CHR 0xC2, CHR 0xA0] @ ''abc eth''" "\<lparr>token_http = Response 200 (Some (JDict [])), market_http = Response 200 (Some (JDict [])),  shot = Saved, photo_ok = True, float_sum = exact_fsum\<rparr>" "{}"]
  show ?thesis
    by blast
qed

text \<open>
  C3. Once the holder-data fetch of an accepted request has resolved to absence, the
  handler sends exactly one message, the generic failure message, and nothing else: no
  header, market or holder content and no photo, whatever the market fetch and the
  screenshot gave. Together with the acknowledgement that every accepted request gets
  before the fetches start, the user has then received two messages.
\<close>

theorem absent_holder_data_replies:
  assumes "py_split (py_strip message_text) = [a, w]"
    and "py_lower w \<in> set SUPPORTED_CHAINS"
    and "snd (get_token_data a (py_lower w) (token_http e)) = None"
  shows "replies (fst (process_request e files a (py_lower w))) =
           [ReplyText no_map_text None False] \<and>
         replies (fst (handle_contract e files message_text)) =
           [ReplyText processing_text None False, ReplyText no_map_text None False]"
  using process_request_no_token(1) [OF assms(3)] no_token_replies [OF assms]
  by simp

theorem absent_holder_data_replies_witness:
  "py_split (py_strip ''0xabc eth'') = [''0xabc'', ''eth''] \<and>
   py_lower ''eth'' \<in> set SUPPORTED_CHAINS \<and>
   snd (get_token_data ''0xabc'' (py_lower ''eth'')
     (token_http \<lparr>token_http = Response 404 None, market_http = Response 200 (Some (JDict [])),
                  shot = Saved, photo_ok = True, float_sum = exact_fsum\<rparr>)) = None \<and>
   replies (fst (process_request
       \<lparr>token_http = Response 404 None, market_http = Response 200 (Some (JDict [])),
        shot = Saved, photo_ok = True, float_sum = exact_fsum\<rparr> {} ''0xabc''
       (py_lower ''eth''))) =
     [ReplyText no_map_text None False] \<and>
   replies (fst (handle_contract
       \<lparr>token_http = Response 404 None, market_http = Response 200 (Some (JDict [])),
        shot = Saved, photo_ok = True, float_sum = exact_fsum\<rparr> {} ''0xabc eth'')) =
     [ReplyText processing_text None False, ReplyText no_map_text None False]"
proof -
  have tk: "snd (get_token_data ''0xabc'' (py_lower ''eth'')
     (token_http \<lparr>token_http = Response 404 None, market_http = Response 200 (Some (JDict [])),
                  shot = Saved, photo_ok = True, float_sum = exact_fsum\<rparr>)) = None"
    by (simp add: get_token_data_def get_token_data_try_def)
  from absent_holder_data_replies [OF split_0xabc_eth eth_supported tk, of "{}"]
    split_0xabc_eth eth_supported tk
  show ?thesis
    by blast
qed

text \<open>
  C1 fails on the code. The screenshot is removed only in the \<^verbatim>\<open>finally\<close> clause around
  the sending of the photo. When the holder service answers 401 the handler returns
  before that block, and when a market field is null the composition raises before it:
  in both runs the file written by the browser is still on disk when the handler ends.
\<close>

theorem screenshot_left_behind:
  "''temp_0xabc.png'' \<in> snd (handle_contract
      \<lparr>token_http = Response 401 None, market_http = Response 200 (Some (JDict [])),
       shot = Saved, photo_ok = True, float_sum = exact_fsum\<rparr> {} ''0xabc eth'') \<and>
   ''temp_0xabc.png'' \<in> snd (handle_contract
      \<lparr>token_http = Response 200 (Some (JDict [])),
       market_http = Response 200 (Some (JDict [])),
       shot = Saved, photo_ok = True, float_sum = exact_fsum\<rparr> {} ''0xabc eth'')"
proof
  have tk: "snd (get_token_data ''0xabc'' (py_lower ''eth'')
      (token_http \<lparr>token_http = Response 401 None, market_http = Response 200 (Some (JDict [])),
       shot = Saved, photo_ok = True, float_sum = exact_fsum\<rparr>)) = None"
    by (simp add: get_token_data_def get_token_data_try_def)
  show "''temp_0xabc.png'' \<in> snd (handle_contract
      \<lparr>token_http = Response 401 None, market_http = Response 200 (Some (JDict [])),
       shot = Saved, photo_ok = True, float_sum = exact_fsum\<rparr> {} ''0xabc eth'')"
    by (simp add: handle_contract_accepts [OF split_0xabc_eth eth_supported]
        process_request_no_token(3) [OF tk] generate_screenshot_def Let_def)
next
  have tk: "snd (get_token_data ''0xabc'' (py_lower ''eth'')
      (token_http \<lparr>token_http = Response 200 (Some (JDict [])),
         market_http = Response 200 (Some (JDict [])), shot = Saved, photo_ok = True, float_sum = exact_fsum\<rparr>)) =
      Some [(''token_address'', JStr ''0xabc''), (''symbol'', JStr ''N/A''),
            (''full_name'', JStr ''N/A'')]"
    by (simp add: get_token_data_def get_token_data_try_def dict_get_def)
  have mk: "snd (get_market_data ''0xabc'' (py_lower ''eth'')
      (market_http \<lparr>token_http = Response 200 (Some (JDict [])),
         market_http = Response 200 (Some (JDict [])), shot = Saved, photo_ok = True, float_sum = exact_fsum\<rparr>)) =
      Some [(''price'', JNull), (''market_cap'', JNull), (''volume'', JNull),
            (''price_change_24h'', JNull)]"
    using get_market_data_empty [of "''eth''" "''ethereum''" "[]" "''0xabc''"]
    by (simp add: lower_eth eth_slug)
  have ml: "market_lines (Some [(''price'', JNull), (''market_cap'', JNull), (''volume'', JNull),
            (''price_change_24h'', JNull)]) = Inl TypeError"
    by (simp add: market_lines_def dict_get_def fmt_fixed_null)
  show "''temp_0xabc.png'' \<in> snd (handle_contract
      \<lparr>token_http = Response 200 (Some (JDict [])),
       market_http = Response 200 (Some (JDict [])),
       shot = Saved, photo_ok = True, float_sum = exact_fsum\<rparr> {} ''0xabc eth'')"
    by (simp add: handle_contract_accepts [OF split_0xabc_eth eth_supported]
        process_request_compose_raises(3) [OF tk mk ml] generate_screenshot_def Let_def)
qed

text \<open>
  C9. A market fetch that gets through returns a record with all four keys, also when
  every extracted value is \<^verbatim>\<open>None\<close>, so the record is present and \<^verbatim>\<open>if market_data:\<close>
  holds. When one of the four values of such a record is \<^verbatim>\<open>None\<close>, formatting the
  market block raises, and the request ends with a single generic failure message after
  the acknowledgement (the message of the missing map when the holder data is absent as
  well), not with a response that merely leaves the market block out.
\<close>

theorem null_market_field_aborts_request:
  "(snd (get_market_data a c h) = Some md \<longrightarrow>
      map fst md = [''price'', ''market_cap'', ''volume'', ''price_change_24h'']) \<and>
   (map_of chain_map c = Some slug \<and> map_of d ''market_data'' = None \<longrightarrow>
      snd (get_market_data a c (Response 200 (Some (JDict d)))) =
        Some [(''price'', JNull), (''market_cap'', JNull), (''volume'', JNull),
              (''price_change_24h'', JNull)]) \<and>
   (py_split (py_strip message_text) = [a, w] \<and>
    py_lower w \<in> set SUPPORTED_CHAINS \<and>
    snd (get_market_data a (py_lower w) (market_http e)) = Some md \<and>
    (map_of md ''price'' = Some JNull \<or> map_of md ''market_cap'' = Some JNull \<or>
     map_of md ''volume'' = Some JNull \<or> map_of md ''price_change_24h'' = Some JNull) \<longrightarrow>
      (\<exists>x. market_lines (Some md) = Inl x) \<and>
      replies (fst (handle_contract e files message_text)) =
        [ReplyText processing_text None False,
         ReplyText (if snd (get_token_data a (py_lower w) (token_http e)) = None
                    then no_map_text else error_text) None False])"
proof (intro conjI impI)
  assume "snd (get_market_data a c h) = Some md"
  then show "map fst md = [''price'', ''market_cap'', ''volume'', ''price_change_24h'']"
    by (rule get_market_data_keys(1))
next
  assume "map_of chain_map c = Some slug \<and> map_of d ''market_data'' = None"
  then show "snd (get_market_data a c (Response 200 (Some (JDict d)))) =
        Some [(''price'', JNull), (''market_cap'', JNull), (''volume'', JNull),
              (''price_change_24h'', JNull)]"
    by (simp add: get_market_data_empty)
next
  assume h: "py_split (py_strip message_text) = [a, w] \<and>
    py_lower w \<in> set SUPPORTED_CHAINS \<and>
    snd (get_market_data a (py_lower w) (market_http e)) = Some md \<and>
    (map_of md ''price'' = Some JNull \<or> map_of md ''market_cap'' = Some JNull \<or>
     map_of md ''volume'' = Some JNull \<or> map_of md ''price_change_24h'' = Some JNull)"
  then show "\<exists>x. market_lines (Some md) = Inl x"
    by (simp add: market_lines_null)
next
  assume h: "py_split (py_strip message_text) = [a, w] \<and>
    py_lower w \<in> set SUPPORTED_CHAINS \<and>
    snd (get_market_data a (py_lower w) (market_http e)) = Some md \<and>
    (map_of md ''price'' = Some JNull \<or> map_of md ''market_cap'' = Some JNull \<or>
     map_of md ''volume'' = Some JNull \<or> map_of md ''price_change_24h'' = Some JNull)"
  then obtain x where x: "market_lines (Some md) = Inl x"
    using market_lines_null [of md] by blast
  from h have sp: "py_split (py_strip message_text) = [a, w]"
    and su: "py_lower w \<in> set SUPPORTED_CHAINS"
    and mk: "snd (get_market_data a (py_lower w) (market_http e)) = Some md"
    by simp_all
  show "replies (fst (handle_contract e files message_text)) =
        [ReplyText processing_text None False,
         ReplyText (if snd (get_token_data a (py_lower w) (token_http e)) = None
                    then no_map_text else error_text) None False]"
  proof (cases "snd (get_token_data a (py_lower w) (token_http e))")
    case None
    then show ?thesis
      by (simp add: no_token_replies [OF sp su])
  next
    case (Some td)
    then show ?thesis
      by (simp add: compose_raises_replies [OF sp su Some mk x])
  qed
qed

theorem null_market_field_aborts_request_witness:
  "snd (get_market_data ''0xabc'' ''eth''
         (Response 200 (Some (JDict [(''market_data'', JDict [(''current_price'',
            JDict [(''usd'', JFloat 2)])])])))) =
     Some [(''price'', JFloat 2), (''market_cap'', JNull), (''volume'', JNull),
           (''price_change_24h'', JNull)] \<and>
   map fst [(''price'', JFloat 2), (''market_cap'', JNull), (''volume'', JNull),
           (''price_change_24h'', JNull)] =
     [''price'', ''market_cap'', ''volume'', ''price_change_24h''] \<and>
   map_of chain_map ''eth'' = Some ''ethereum'' \<and>
   map_of [(''id'', JStr ''x'')] ''market_data'' = None \<and>
   snd (get_market_data ''0xabc'' ''eth'' (Response 200 (Some (JDict [(''id'', JStr ''x'')])))) =
     Some [(''price'', JNull), (''market_cap'', JNull), (''volume'', JNull),
           (''price_change_24h'', JNull)] \<and>
   py_split (py_strip ''0xabc eth'') = [''0xabc'', ''eth''] \<and>
   py_lower ''eth'' \<in> set SUPPORTED_CHAINS \<and>
   map_of [(''price'', JFloat 2), (''market_cap'', JNull), (''volume'', JNull),
           (''price_change_24h'', JNull)] ''market_cap'' = Some JNull \<and>
   (\<exists>x. market_lines (Some [(''price'', JFloat 2), (''market_cap'', JNull), (''volume'', JNull),
           (''price_change_24h'', JNull)]) = Inl x) \<and>
   replies (fst (handle_contract
       \<lparr>token_http = Response 200 (Some (JDict [(''symbol'', JStr ''ABC'')])),
        market_http = Response 200 (Some (JDict [(''market_data'', JDict [(''current_price'',
            JDict [(''usd'', JFloat 2)])])])),
        shot = Saved, photo_ok = True, float_sum = exact_fsum\<rparr> {} ''0xabc eth'')) =
     [ReplyText processing_text None False, ReplyText error_text None False]"
proof -
  have mk: "snd (get_market_data ''0xabc'' ''eth''
         (Response 200 (Some (JDict [(''market_data'', JDict [(''current_price'',
            JDict [(''usd'', JFloat 2)])])])))) =
     Some [(''price'', JFloat 2), (''market_cap'', JNull), (''volume'', JNull),
           (''price_change_24h'', JNull)]"
    by (simp add: get_market_data_def eth_slug get_market_data_try_def market_record_def
        usd_of_def dict_get_def)
  have tk: "snd (get_token_data ''0xabc'' ''eth''
       (Response 200 (Some (JDict [(''symbol'', JStr ''ABC'')])))) \<noteq> None"
    by (simp add: get_token_data_def get_token_data_try_def)
  have nm: "map_of [(''id'', JStr ''x'')] ''market_data'' = None"
    by simp
  have nl: "map_of [(''price'', JFloat 2), (''market_cap'', JNull), (''volume'', JNull),
           (''price_change_24h'', JNull)] ''market_cap'' = Some JNull"
    by simp
  note t = null_market_field_aborts_request
    [of "''0xabc''" "''eth''"
        "Response 200 (Some (JDict [(''market_data'', JDict [(''current_price'',
            JDict [(''usd'', JFloat 2)])])]))"
        "[(''price'', JFloat 2), (''market_cap'', JNull), (''volume'', JNull),
           (''price_change_24h'', JNull)]"
        "''ethereum''" "[(''id'', JStr ''x'')]" "''0xabc eth''" "''eth''"
        "\<lparr>token_http = Response 200 (Some (JDict [(''symbol'', JStr ''ABC'')])),
        market_http = Response 200 (Some (JDict [(''market_data'', JDict [(''current_price'',
            JDict [(''usd'', JFloat 2)])])])),
        shot = Saved, photo_ok = True, float_sum = exact_fsum\<rparr>" "{}"]
  from t mk tk nm nl split_0xabc_eth eth_supported eth_slug
  show ?thesis
    by (simp add: lower_eth)
qed

lemma replies_Nil: "replies [] = []"
  by (simp add: replies_def)

lemma replies_Cons: "replies (ev # evs) = (if is_reply ev then ev # replies evs else replies evs)"
  by (simp add: replies_def)

lemma process_request_composition:
  assumes "snd (get_token_data a c (token_http e)) = Some td"
  shows "compose_response (float_sum e) c td
           (if c \<noteq> ''sol'' then snd (get_market_data a c (market_http e)) else None) = Inl x \<Longrightarrow>
         replies (fst (process_request e files a c)) = [] \<and>
         snd (snd (process_request e files a c)) = Some x"
    and "compose_response (float_sum e) c td
           (if c \<noteq> ''sol'' then snd (get_market_data a c (market_http e)) else None) = Inr response \<Longrightarrow>
         replies (fst (process_request e files a c)) =
           replies (fst (send_result (photo_ok e)
             (snd (snd (generate_screenshot a c (shot e) files)))
             (fst (snd (generate_screenshot a c (shot e) files))) response)) \<and>
         snd (snd (process_request e files a c)) =
           snd (snd (send_result (photo_ok e)
             (snd (snd (generate_screenshot a c (shot e) files)))
             (fst (snd (generate_screenshot a c (shot e) files))) response))"
proof -
  obtain tev where t: "get_token_data a c (token_http e) = (tev, Some td)"
    using assms(1) by (cases "get_token_data a c (token_http e)") simp
  obtain mev md where m: "(if c \<noteq> ''sol'' then get_market_data a c (market_http e)
            else ([], None)) = (mev, md)"
    by (cases "if c \<noteq> ''sol'' then get_market_data a c (market_http e) else ([], None)")
  then have md: "md = (if c \<noteq> ''sol'' then snd (get_market_data a c (market_http e)) else None)"
    by (auto split: if_splits)
  from m have rm: "replies mev = []"
    using replies_get_market_data [of a c "market_http e"]
    by (auto simp: replies_Nil split: if_splits)
  obtain sev sp fs where s: "generate_screenshot a c (shot e) files = (sev, sp, fs)"
    by (cases "generate_screenshot a c (shot e) files")
  have td: "td \<noteq> []"
    using assms(1) by (rule get_token_data_nonempty)
  from t have rt: "replies tev = []"
    using replies_get_token_data [of a c "token_http e"] by simp
  from s have rs: "replies sev = []"
    using replies_generate_screenshot [of a c "shot e" files] by simp
  {
    assume "compose_response (float_sum e) c td
           (if c \<noteq> ''sol'' then snd (get_market_data a c (market_http e)) else None) = Inl x"
    then have cr: "compose_response (float_sum e) c td md = Inl x"
      by (simp only: md)
    have "process_request e files a c = (tev @ mev @ sev, fs, Some x)"
      unfolding process_request_def t m s using td by (simp add: cr)
    then show "replies (fst (process_request e files a c)) = [] \<and>
         snd (snd (process_request e files a c)) = Some x"
      by (simp add: replies_append rt rm rs)
  }
  {
    assume "compose_response (float_sum e) c td
           (if c \<noteq> ''sol'' then snd (get_market_data a c (market_http e)) else None) = Inr response"
    then have cr: "compose_response (float_sum e) c td md = Inr response"
      by (simp only: md)
    have "process_request e files a c =
        (tev @ mev @ sev @ fst (send_result (photo_ok e) fs sp response),
         fst (snd (send_result (photo_ok e) fs sp response)),
         snd (snd (send_result (photo_ok e) fs sp response)))"
      unfolding process_request_def t m s using td by (simp add: cr split: prod.splits)
    then show "replies (fst (process_request e files a c)) =
           replies (fst (send_result (photo_ok e)
             (snd (snd (generate_screenshot a c (shot e) files)))
             (fst (snd (generate_screenshot a c (shot e) files))) response)) \<and>
         snd (snd (process_request e files a c)) =
           snd (snd (send_result (photo_ok e)
             (snd (snd (generate_screenshot a c (shot e) files)))
             (fst (snd (generate_screenshot a c (shot e) files))) response))"
      by (simp add: replies_append rt rm rs s)
  }
qed

lemma delivery:
  "replies (fst (send_result ok
       (snd (snd (generate_screenshot a c outcome files)))
       (fst (snd (generate_screenshot a c outcome files))) response))
   @ (case snd (snd (send_result ok
       (snd (snd (generate_screenshot a c outcome files)))
       (fst (snd (generate_screenshot a c outcome files))) response)) of
        None \<Rightarrow> [] | Some err \<Rightarrow> [ReplyText error_text None False]) =
   (case outcome of
      Saved \<Rightarrow>
        if ok
        then [ReplyPhoto (''temp_'' @ a @ ''.png'') (py_join [Lit newline] response)
                (Some ''Markdown'')]
        else [ReplyText error_text None False]
    | SaveSkipped \<Rightarrow>
        if ''temp_'' @ a @ ''.png'' \<in> files \<and> ok
        then [ReplyPhoto (''temp_'' @ a @ ''.png'') (py_join [Lit newline] response)
                (Some ''Markdown'')]
        else [ReplyText error_text None False]
    | _ \<Rightarrow> [ReplyText (py_join [Lit newline] response) (Some ''Markdown'') True])"
  by (cases outcome)
    (simp_all add: generate_screenshot_def send_result_def Let_def replies_Nil replies_Cons)

lemma handle_contract_replies:
  assumes "py_split (py_strip message_text) = [a, w]"
    and "py_lower w \<in> set SUPPORTED_CHAINS"
  shows "replies (fst (handle_contract e files message_text)) =
           ReplyText processing_text None False
           # replies (fst (process_request e files a (py_lower w)))
           @ (case snd (snd (process_request e files a (py_lower w))) of
                None \<Rightarrow> [] | Some err \<Rightarrow> [ReplyText error_text None False])"
  unfolding handle_contract_accepts [OF assms]
  by (simp add: replies_append replies_Cons replies_Nil split: option.splits)


lemma fmt_fixed_percentage_ok:
  "percentage_ok p \<Longrightarrow> fmt_fixed n b p = Inr (Fixed n b p)"
proof (cases p)
  case (JInt i)
  assume "percentage_ok p"
  with JInt have "\<bar>i\<bar> \<le> 2 ^ 1000" by (simp add: percentage_ok_def)
  then have "\<bar>i\<bar> \<le> 10 * 2 ^ 1000" by simp
  then have "int_fits_float i" by (rule small_int_fits)
  with JInt show ?thesis by (simp add: fmt_fixed_def)
qed (simp_all add: percentage_ok_def is_number_def fmt_fixed_def)

lemma take10_addressed:
  "list_all addressed_record ns \<Longrightarrow> list_all holder_record (take 10 ns)"
  by (auto simp: list_all_iff addressed_record_def dest: in_set_takeD)

lemma holder_lines_wellformed:
  assumes "(map_of td ''nodes'' = None \<and> ns = []) \<or>
           (map_of td ''nodes'' = Some (JList ns) \<and> list_all addressed_record ns)"
  shows "case ns of
           [] \<Rightarrow> holder_lines fsum td = Inr []
         | h # rest \<Rightarrow>
             (\<exists>address p v.
                py_item h ''address'' = Inr address \<and>
                py_get h ''percentage'' (JInt 0) = Inr p \<and>
                analyze_decentralization fsum ns = Inr v \<and>
                holder_lines fsum td = Inr
                  [[], holder_title,
                   [Lit (bullet @ '' Address: `''), Val address, Lit ''`''],
                   [Lit (bullet @ '' Percentage: ''), Fixed 2 False p, Lit ''%''],
                   [], analysis_title,
                   [Lit (bullet @ '' Score: ''), Val (JInt (score v)), Lit ''/5''],
                   [Lit (bullet @ '' Description: ''), Lit (description v)]])"
proof (cases ns)
  case Nil
  with assms show ?thesis
    by (auto simp: holder_lines_def)
next
  case (Cons h rest)
  with assms have nodes: "map_of td ''nodes'' = Some (JList (h # rest))"
    and ok: "list_all addressed_record (h # rest)"
    by auto
  from ok obtain d where d: "h = JDict d" and hr: "holder_record h"
    and ad: "map_of d ''address'' \<noteq> None"
    by (cases h) (auto simp: addressed_record_def)
  from ad obtain address where address: "py_item h ''address'' = Inr address"
    by (auto simp: d)
  from hr d have pk: "percentage_ok (dict_get d ''percentage'' (JInt 0))"
    using holder_record_percentage [of h] by auto
  have p: "py_get h ''percentage'' (JInt 0) = Inr (dict_get d ''percentage'' (JInt 0))"
    by (simp add: d)
  have f: "fmt_fixed 2 False (dict_get d ''percentage'' (JInt 0)) =
      Inr (Fixed 2 False (dict_get d ''percentage'' (JInt 0)))"
    using pk by (rule fmt_fixed_percentage_ok)
  from take10_addressed [OF ok] have "list_all holder_record (take 10 (h # rest))" .
  from sum_percentage_total [OF this, of "[]"] obtain seen' where
    "sum_percentage [] (take 10 (h # rest)) = Inr seen'"
    by auto
  then have "\<exists>t. top10_percentage fsum (h # rest) = Inr t"
    by (simp add: top10_percentage_def)
  then obtain v where v: "analyze_decentralization fsum (h # rest) = Inr v"
    using analyze_returns_of_sum by blast
  have "holder_lines fsum td = Inr
                  [[], holder_title,
                   [Lit (bullet @ '' Address: `''), Val address, Lit ''`''],
                   [Lit (bullet @ '' Percentage: ''),
                    Fixed 2 False (dict_get d ''percentage'' (JInt 0)), Lit ''%''],
                   [], analysis_title,
                   [Lit (bullet @ '' Score: ''), Val (JInt (score v)), Lit ''/5''],
                   [Lit (bullet @ '' Description: ''), Lit (description v)]]"
    using nodes v address p f by (simp add: holder_lines_def holder_block_def)
  with address p v Cons show ?thesis
    by auto
qed

text \<open>
  C7, as the code has it. Take an accepted request whose holder-data fetch succeeds and
  whose market data is absent (the fetch is skipped for \<^verbatim>\<open>sol\<close>, or it returned
  \<^verbatim>\<open>None\<close>), and whose nodes are missing or are a list of holder records, each with an
  address and with a percentage that is missing or a number. Then a response is composed:
  the five header lines (name and symbol, network, address, time of update), followed, when
  the list is non-empty, by the top-holder block and the decentralization block, and with
  no market line. After the acknowledgement the handler sends exactly this response, as
  the caption of the photo or as a text, or the failure message when the photo cannot be
  sent.
\<close>

theorem response_without_market_data:
  assumes "py_split (py_strip message_text) = [a, w]"
    and "py_lower w \<in> set SUPPORTED_CHAINS"
    and "snd (get_token_data a (py_lower w) (token_http e)) = Some td"
    and "py_lower w = ''sol'' \<or> snd (get_market_data a (py_lower w) (market_http e)) = None"
    and "(map_of td ''nodes'' = None \<and> ns = []) \<or>
         (map_of td ''nodes'' = Some (JList ns) \<and> list_all addressed_record ns)"
  shows "\<exists>response.
      compose_response (float_sum e) (py_lower w) td None = Inr response \<and>
      take 5 response =
         [[Lit (bar_chart @ '' *''), Val (dict_get td ''full_name'' (JStr ''N/A'')), Lit '' ('',
           Val (dict_get td ''symbol'' (JStr ''N/A'')), Lit '')*''],
          [],
          [Lit (bullet @ '' Network: ''), Lit (py_upper (py_lower w))],
          [Lit (bullet @ '' Address: `''), Val (dict_get td ''token_address'' JNull), Lit ''`''],
          [Lit (bullet @ '' Updated: ''), Val (dict_get td ''dt_update'' (JStr ''N/A''))]] \<and>
      [Lit (yen_chart @ '' *Market Data:*'')] \<notin> set response \<and>
      (case ns of
         [] \<Rightarrow> drop 5 response = []
       | h # rest \<Rightarrow>
           (\<exists>address p v.
              py_item h ''address'' = Inr address \<and>
              py_get h ''percentage'' (JInt 0) = Inr p \<and>
              analyze_decentralization (float_sum e) ns = Inr v \<and>
              drop 5 response =
               [[],
               [Lit (trophy @ '' *Top Holder:*'')],
               [Lit (bullet @ '' Address: `''), Val address, Lit ''`''],
               [Lit (bullet @ '' Percentage: ''), Fixed 2 False p, Lit ''%''],
               [],
               [Lit (magnifier @ '' *Decentralization Analysis:*'')],
               [Lit (bullet @ '' Score: ''), Val (JInt (score v)), Lit ''/5''],
               [Lit (bullet @ '' Description: ''), Lit (description v)]])) \<and>
      replies (fst (handle_contract e files message_text)) =
        ReplyText processing_text None False #
          (case shot e of
              Saved \<Rightarrow>
                if photo_ok e
                then [ReplyPhoto (''temp_'' @ a @ ''.png'') (py_join [Lit newline] response)
                        (Some ''Markdown'')]
                else [ReplyText error_text None False]
            | SaveSkipped \<Rightarrow>
                if ''temp_'' @ a @ ''.png'' \<in> files \<and> photo_ok e
                then [ReplyPhoto (''temp_'' @ a @ ''.png'') (py_join [Lit newline] response)
                        (Some ''Markdown'')]
                else [ReplyText error_text None False]
            | _ \<Rightarrow> [ReplyText (py_join [Lit newline] response) (Some ''Markdown'') True])"
proof -
  define holders where "holders = (case holder_lines (float_sum e) td of Inr ls \<Rightarrow> ls | Inl x \<Rightarrow> [])"
  define response where "response = header_lines (py_lower w) td @ holders"
  note hw = holder_lines_wellformed [OF assms(5), of "float_sum e"]
  have hl: "holder_lines (float_sum e) td = Inr holders"
    using hw by (cases ns) (auto simp: holders_def)
  have cr: "compose_response (float_sum e) (py_lower w) td None = Inr response"
    by (simp add: compose_response_def market_lines_def hl response_def)
  have tk: "take 5 response =
         [[Lit (bar_chart @ '' *''), Val (dict_get td ''full_name'' (JStr ''N/A'')), Lit '' ('',
           Val (dict_get td ''symbol'' (JStr ''N/A'')), Lit '')*''],
          [],
          [Lit (bullet @ '' Network: ''), Lit (py_upper (py_lower w))],
          [Lit (bullet @ '' Address: `''), Val (dict_get td ''token_address'' JNull), Lit ''`''],
          [Lit (bullet @ '' Updated: ''), Val (dict_get td ''dt_update'' (JStr ''N/A''))]]"
    by (simp add: response_def header_lines_def)
  have dr: "drop 5 response = holders"
    by (simp add: response_def header_lines_def)
  have shape: "case ns of
         [] \<Rightarrow> drop 5 response = []
       | h # rest \<Rightarrow>
           (\<exists>address p v.
              py_item h ''address'' = Inr address \<and>
              py_get h ''percentage'' (JInt 0) = Inr p \<and>
              analyze_decentralization (float_sum e) ns = Inr v \<and>
              drop 5 response =
               [[],
               [Lit (trophy @ '' *Top Holder:*'')],
               [Lit (bullet @ '' Address: `''), Val address, Lit ''`''],
               [Lit (bullet @ '' Percentage: ''), Fixed 2 False p, Lit ''%''],
               [],
               [Lit (magnifier @ '' *Decentralization Analysis:*'')],
               [Lit (bullet @ '' Score: ''), Val (JInt (score v)), Lit ''/5''],
               [Lit (bullet @ '' Description: ''), Lit (description v)]])"
    using hw hl unfolding dr
    by (cases ns) (auto simp: holder_title_def analysis_title_def)
  have nm: "[Lit (yen_chart @ '' *Market Data:*'')] \<notin> set response"
  proof -
    have "[Lit (yen_chart @ '' *Market Data:*'')] \<notin> set (header_lines (py_lower w) td)"
      by (simp add: header_lines_def)
    moreover have "[Lit (yen_chart @ '' *Market Data:*'')] \<notin> set holders"
      using hw hl
      by (cases ns)
        (auto simp: holder_title_def analysis_title_def yen_chart_def trophy_def magnifier_def)
    ultimately show ?thesis
      by (simp add: response_def)
  qed
  have md: "(if py_lower w \<noteq> ''sol''
             then snd (get_market_data a (py_lower w) (market_http e)) else None) = None"
    using assms(4) by auto
  have cr': "compose_response (float_sum e) (py_lower w) td
           (if py_lower w \<noteq> ''sol''
            then snd (get_market_data a (py_lower w) (market_http e)) else None) = Inr response"
    by (simp only: md cr)
  note pr = process_request_composition(2) [OF assms(3) cr', of files]
  have "replies (fst (handle_contract e files message_text)) =
        ReplyText processing_text None False #
          (case shot e of
              Saved \<Rightarrow>
                if photo_ok e
                then [ReplyPhoto (''temp_'' @ a @ ''.png'') (py_join [Lit newline] response)
                        (Some ''Markdown'')]
                else [ReplyText error_text None False]
            | SaveSkipped \<Rightarrow>
                if ''temp_'' @ a @ ''.png'' \<in> files \<and> photo_ok e
                then [ReplyPhoto (''temp_'' @ a @ ''.png'') (py_join [Lit newline] response)
                        (Some ''Markdown'')]
                else [ReplyText error_text None False]
            | _ \<Rightarrow> [ReplyText (py_join [Lit newline] response) (Some ''Markdown'') True])"
    unfolding handle_contract_replies [OF assms(1,2)]
    using pr delivery [of "photo_ok e" a "py_lower w" "shot e" files response]
    by simp
  with cr tk nm shape show ?thesis
    by blast
qed


theorem response_without_market_data_witness:
  "py_split (py_strip ''0xabc ETH'') = [''0xabc'', ''ETH''] \<and>
   py_lower ''ETH'' \<in> set SUPPORTED_CHAINS \<and>
   snd (get_token_data ''0xabc'' (py_lower ''ETH'') (token_http example_env)) =
     Some example_token_data \<and>
   snd (get_market_data ''0xabc'' (py_lower ''ETH'') (market_http example_env)) = None \<and>
   map_of example_token_data ''nodes'' =
     Some (JList (example_top_holder # example_other_holders)) \<and>
   list_all addressed_record (example_top_holder # example_other_holders) \<and>
   compose_response (float_sum example_env) (py_lower ''ETH'') example_token_data None =
     Inr example_response \<and>
   replies (fst (handle_contract example_env {} ''0xabc ETH'')) =
     [ReplyText processing_text None False,
      ReplyPhoto ''temp_0xabc.png'' (py_join [Lit newline] example_response)
        (Some ''Markdown'')]"
proof -
  have lw: "py_lower ''ETH'' = ''eth''"
    by (simp add: py_lower_def lower_char_def ascii_uppercase_def ascii_lowercase_def
        is_continuation_def)
  have h1: "py_split (py_strip ''0xabc ETH'') = [''0xabc'', ''ETH'']"
    by (simp add: py_split_def py_strip_def is_space_def whitespace_def is_continuation_def)
  have h2: "py_lower ''ETH'' \<in> set SUPPORTED_CHAINS"
    by (simp add: lw SUPPORTED_CHAINS_def)
  have h3: "snd (get_token_data ''0xabc'' (py_lower ''ETH'') (token_http example_env)) =
     Some example_token_data"
    by (simp add: example_env_def get_token_data_def get_token_data_try_def
        example_token_data_def dict_get_def)
  have h4: "snd (get_market_data ''0xabc'' (py_lower ''ETH'') (market_http example_env)) = None"
    by (simp add: lw example_env_def get_market_data_def eth_slug get_market_data_try_def)
  have h5: "map_of example_token_data ''nodes'' =
     Some (JList (example_top_holder # example_other_holders))"
    by (simp add: example_token_data_def)
  have h6: "list_all addressed_record (example_top_holder # example_other_holders)"
    by (simp add: example_top_holder_def example_other_holders_def addressed_record_def
        holder_record_def percentage_ok_def is_number_def)
  have c: "compose_response (float_sum example_env) (py_lower ''ETH'') example_token_data None =
     Inr example_response"
    by (simp add: lw example_env_def compose_response_def market_lines_def holder_lines_def
        example_token_data_def example_top_holder_def example_other_holders_def
        example_response_def header_lines_def holder_title_def analysis_title_def
        holder_block_def analyze_decentralization_def top10_percentage_def sum_add_def
        sum_value_def all_ints_def int_total_def is_number_def int_fits_float_def
        exact_fsum_def dict_get_def fmt_fixed_def py_upper_def ascii_uppercase_def
        ascii_lowercase_def)
  have s: "shot example_env = Saved" and p: "photo_ok example_env"
    by (simp_all add: example_env_def)
  from response_without_market_data
    [of "''0xabc ETH''" "''0xabc''" "''ETH''" example_env example_token_data
        "example_top_holder # example_other_holders" "{}"] h1 h2 h3 h4 h5 h6
  obtain response where
    r: "compose_response (float_sum example_env) (py_lower ''ETH'') example_token_data None =
          Inr response"
    and d: "replies (fst (handle_contract example_env {} ''0xabc ETH'')) =
        ReplyText processing_text None False #
          (case shot example_env of
              Saved \<Rightarrow>
                if photo_ok example_env
                then [ReplyPhoto (''temp_'' @ ''0xabc'' @ ''.png'') (py_join [Lit newline] response)
                        (Some ''Markdown'')]
                else [ReplyText error_text None False]
            | SaveSkipped \<Rightarrow>
                if ''temp_'' @ ''0xabc'' @ ''.png'' \<in> {} \<and> photo_ok example_env
                then [ReplyPhoto (''temp_'' @ ''0xabc'' @ ''.png'') (py_join [Lit newline] response)
                        (Some ''Markdown'')]
                else [ReplyText error_text None False]
            | _ \<Rightarrow> [ReplyText (py_join [Lit newline] response) (Some ''Markdown'') True])"
    by blast
  from r c have "response = example_response" by simp
  with d s p have "replies (fst (handle_contract example_env {} ''0xabc ETH'')) =
     [ReplyText processing_text None False,
      ReplyPhoto ''temp_0xabc.png'' (py_join [Lit newline] example_response)
        (Some ''Markdown'')]"
    by simp
  with h1 h2 h3 h4 h5 h6 c show ?thesis
    by blast
qed

text \<open>
  The claim as stated fails: for \<^verbatim>\<open>sol\<close> the market data is absent, the holder fetch
  succeeds and the holder list is non-empty, but its first record has no address, so
  \<^verbatim>\<open>holder['address']\<close> raises \<^verbatim>\<open>KeyError\<close> and the user gets the failure message
  instead of a response with header and holder blocks.
\<close>

theorem first_holder_without_address:
  "snd (get_token_data ''0xabc'' ''sol''
         (Response 200 (Some (JDict [(''nodes'', JList [JDict [(''percentage'', JInt 60)]])])))) =
     Some [(''nodes'', JList [JDict [(''percentage'', JInt 60)]]),
           (''token_address'', JStr ''0xabc''), (''symbol'', JStr ''N/A''),
           (''full_name'', JStr ''N/A'')] \<and>
   replies (fst (handle_contract
       \<lparr>token_http =
          Response 200 (Some (JDict [(''nodes'', JList [JDict [(''percentage'', JInt 60)]])])),
        market_http = Response 500 None, shot = DriverFailed, photo_ok = True,
        float_sum = exact_fsum\<rparr> {} ''0xabc sol'')) =
     [ReplyText processing_text None False, ReplyText error_text None False]"
proof -
  have sp: "py_split (py_strip ''0xabc sol'') = [''0xabc'', ''sol'']"
    by (simp add: py_split_def py_strip_def is_space_def whitespace_def is_continuation_def)
  have lw: "py_lower ''sol'' = ''sol''"
    by (simp add: py_lower_def lower_char_def ascii_uppercase_def ascii_lowercase_def
        is_continuation_def)
  have su: "py_lower ''sol'' \<in> set SUPPORTED_CHAINS"
    by (simp add: lw SUPPORTED_CHAINS_def)
  have tk0: "snd (get_token_data ''0xabc'' ''sol''
         (Response 200 (Some (JDict [(''nodes'', JList [JDict [(''percentage'', JInt 60)]])])))) =
     Some [(''nodes'', JList [JDict [(''percentage'', JInt 60)]]),
           (''token_address'', JStr ''0xabc''), (''symbol'', JStr ''N/A''),
           (''full_name'', JStr ''N/A'')]"
    by (simp add: get_token_data_def get_token_data_try_def dict_get_def)
  have tk: "snd (get_token_data ''0xabc'' (py_lower ''sol'')
      (token_http \<lparr>token_http =
          Response 200 (Some (JDict [(''nodes'', JList [JDict [(''percentage'', JInt 60)]])])),
        market_http = Response 500 None, shot = DriverFailed, photo_ok = True,
        float_sum = exact_fsum\<rparr>)) =
     Some [(''nodes'', JList [JDict [(''percentage'', JInt 60)]]),
           (''token_address'', JStr ''0xabc''), (''symbol'', JStr ''N/A''),
           (''full_name'', JStr ''N/A'')]"
    using tk0 by (simp add: lw)
  have cr: "compose_response
      (float_sum \<lparr>token_http =
          Response 200 (Some (JDict [(''nodes'', JList [JDict [(''percentage'', JInt 60)]])])),
        market_http = Response 500 None, shot = DriverFailed, photo_ok = True,
        float_sum = exact_fsum\<rparr>) (py_lower ''sol'')
      [(''nodes'', JList [JDict [(''percentage'', JInt 60)]]),
           (''token_address'', JStr ''0xabc''), (''symbol'', JStr ''N/A''),
           (''full_name'', JStr ''N/A'')]
      (if py_lower ''sol'' \<noteq> ''sol''
       then snd (get_market_data ''0xabc'' (py_lower ''sol'')
         (market_http \<lparr>token_http =
          Response 200 (Some (JDict [(''nodes'', JList [JDict [(''percentage'', JInt 60)]])])),
        market_http = Response 500 None, shot = DriverFailed, photo_ok = True,
        float_sum = exact_fsum\<rparr>)) else None) = Inl KeyError"
    by (simp add: lw compose_response_def market_lines_def holder_lines_def holder_block_def
        analyze_decentralization_def)
  from process_request_composition(1) [OF tk cr, of "{}"] tk0
  show ?thesis
    by (simp add: handle_contract_replies [OF sp su])
qed

end
